theory Spec2Isabelle
  imports Complex_Main "HOL-Library.Stream"
begin

section \<open>Shared data model (src/models.py)\<close>

text \<open>
  The enums of \<^verbatim>\<open>models.py\<close> are datatypes; each \<^verbatim>\<open>str\<close>-valued enum comes with the
  function giving its \<^verbatim>\<open>.value\<close>.  Python \<^verbatim>\<open>int\<close> is \<^typ>\<open>int\<close>.  Python \<^verbatim>\<open>float\<close>
  quantities (times, rates, probabilities) are modelled as exact rationals: every
  finite float is a rational, and the theorems below concern which formula the code
  applies, not its rounding error.
\<close>

datatype Alliance = RED | BLUE

fun Alliance_value :: "Alliance \<Rightarrow> string" where
  "Alliance_value RED = ''red''"
| "Alliance_value BLUE = ''blue''"

datatype Phase = AUTO | TRANSITION | SHIFT1 | SHIFT2 | SHIFT3 | SHIFT4 | ENDGAME

datatype RobotZone =
  ALLIANCE | MIDFIELD | NEUTRAL | HUB | TOWER | OUTPOST | OPPONENT_ZONE | TRENCH

fun RobotZone_value :: "RobotZone \<Rightarrow> string" where
  "RobotZone_value ALLIANCE = ''alliance''"
| "RobotZone_value MIDFIELD = ''midfield''"
| "RobotZone_value NEUTRAL = ''neutral''"
| "RobotZone_value HUB = ''hub''"
| "RobotZone_value TOWER = ''tower''"
| "RobotZone_value OUTPOST = ''outpost''"
| "RobotZone_value OPPONENT_ZONE = ''opponent_zone''"
| "RobotZone_value TRENCH = ''trench''"

datatype RobotAction =
  IDLE | INTAKING | DRIVING | SHOOTING | CLIMBING | DEFENDING | STOCKPILING
| PRE_POSITIONING | DUMPING | PUSHING_FUEL | CLEARING_JAM | WAITING_FOR_FUEL

datatype ShiftRole = SCORER | STOCKPILER | DEFENDER | PUSHER

datatype Archetype =
  ELITE_TURRET | ELITE_MULTISHOT | STRONG | EVERYBOT | KITBOT_PLUS | KITBOT_BASE | DEFENSE

datatype ShooterType =
  SINGLE_TURRET | DOUBLE_FIXED | TRIPLE_FIXED | SINGLE_FIXED | DUMPER | ShooterType_NONE

datatype IndexerType =
  IndexerType_SPINDEXER | IndexerType_SERIALIZER | CONVEYOR | GRAVITY_FED | IndexerType_NONE

fun IndexerType_value :: "IndexerType \<Rightarrow> string" where
  "IndexerType_value IndexerType_SPINDEXER = ''spindexer''"
| "IndexerType_value IndexerType_SERIALIZER = ''serializer''"
| "IndexerType_value CONVEYOR = ''conveyor''"
| "IndexerType_value GRAVITY_FED = ''gravity_fed''"
| "IndexerType_value IndexerType_NONE = ''none''"

datatype IntakeQuality = TOUCH_AND_GO | SLOW_PICKUP | PUSH_AROUND | NO_GROUND_PICKUP

datatype MechanismStatus = NOMINAL | DEGRADED | BROKEN

datatype TurretStatus = TurretStatus_NOMINAL | STUCK

text \<open>\<^verbatim>\<open>MatchState\<close>: the match clock, phase, hub flags and running scores.\<close>

record MatchState =
  time_remaining :: rat
  current_phase :: Phase
  red_hub_active :: bool
  blue_hub_active :: bool
  red_score :: int
  blue_score :: int
  red_fuel_scored :: int
  blue_fuel_scored :: int
  red_tower_points :: int
  blue_tower_points :: int
  red_penalties :: int
  blue_penalties :: int

text \<open>\<^verbatim>\<open>RobotState\<close>; the field \<^verbatim>\<open>id\<close> is named \<open>id'\<close> here.\<close>

record RobotState =
  id' :: string
  alliance :: Alliance
  archetype :: Archetype
  position :: RobotZone
  fuel_held :: int
  fuel_capacity :: int
  storage_capacity :: int
  is_stockpiling :: bool
  is_climbing :: bool
  climb_level :: int
  is_defending :: bool
  is_pushing_fuel :: bool
  fuel_being_pushed :: int
  current_action :: RobotAction
  action_timer :: rat
  shift_role :: ShiftRole
  intake_status :: MechanismStatus
  shooter_status :: MechanismStatus
  fouls_drawn_this_match :: int

text \<open>\<^verbatim>\<open>FieldState\<close>, with its method \<^verbatim>\<open>total_fuel_check\<close>.\<close>

record FieldState =
  neutral_fuel_available :: int
  red_outpost_fuel :: int
  blue_outpost_fuel :: int
  fuel_in_flight :: int
  fuel_in_transit :: int
  transit_queue :: "(rat \<times> int) list"
  red_tower_occupants :: "string list"
  blue_tower_occupants :: "string list"
  congestion_red_hub :: rat
  congestion_blue_hub :: rat

definition total_fuel_check :: "FieldState \<Rightarrow> RobotState list \<Rightarrow> int" where
  "total_fuel_check s robots =
     (let fuel_in_robots = sum_list (map (\<lambda>r. fuel_held r + fuel_being_pushed r) robots)
      in neutral_fuel_available s + red_outpost_fuel s + blue_outpost_fuel s
         + fuel_in_flight s + fuel_in_transit s + fuel_in_robots)"


section \<open>Constants (src/config.py)\<close>

definition TICK_INTERVAL :: rat where "TICK_INTERVAL = 1/2"
definition TOTAL_MATCH_DURATION :: rat where "TOTAL_MATCH_DURATION = 160"
definition FUEL_ACTIVE_HUB_POINTS :: int where "FUEL_ACTIVE_HUB_POINTS = 1"
definition INITIAL_NEUTRAL_FUEL :: int where "INITIAL_NEUTRAL_FUEL = 20"
definition INITIAL_OUTPOST_FUEL :: int where "INITIAL_OUTPOST_FUEL = 10"
definition INITIAL_PRELOAD_FUEL :: int where "INITIAL_PRELOAD_FUEL = 10"
definition TOTAL_FUEL :: int where "TOTAL_FUEL = 60"
definition FUEL_HUB_TRANSIT_TIME :: rat where "FUEL_HUB_TRANSIT_TIME = 3/2"
definition FUEL_MISS_RECOVERY_TIME :: rat where "FUEL_MISS_RECOVERY_TIME = 3"
definition MAX_TOWER_OCCUPANTS :: int where "MAX_TOWER_OCCUPANTS = 3"
definition FIXED_ALIGN_TIME :: rat where "FIXED_ALIGN_TIME = 3/2"
definition TURRET_ALIGN_TIME :: rat where "TURRET_ALIGN_TIME = 0"
definition JAM_CLEAR_TIME :: rat where "JAM_CLEAR_TIME = 7/2"
definition DEGRADED_INTAKE_SPEED_MULT :: rat where "DEGRADED_INTAKE_SPEED_MULT = 1/2"
definition DEGRADED_INTAKE_SUCCESS_RATE :: rat where "DEGRADED_INTAKE_SUCCESS_RATE = 3/5"
definition PUSH_FUEL_PER_TRIP :: int where "PUSH_FUEL_PER_TRIP = 5"
definition PUSH_SCATTER_RATE :: rat where "PUSH_SCATTER_RATE = 1/5"
definition PUSH_TRIP_TIME :: rat where "PUSH_TRIP_TIME = 7"

definition SHOOT_RATE_SINGLE :: rat where "SHOOT_RATE_SINGLE = 3"
definition SHOOT_RATE_DOUBLE :: rat where "SHOOT_RATE_DOUBLE = 13/2"
definition SHOOT_RATE_TRIPLE :: rat where "SHOOT_RATE_TRIPLE = 9"
definition SHOOT_RATE_DUMPER :: rat where "SHOOT_RATE_DUMPER = 15"

text \<open>
  \<^verbatim>\<open>INDEXER_RATES.get(key, 6.0)\<close> and \<^verbatim>\<open>INDEXER_JAM_RATES.get(key, 0.01)\<close>: both
  dictionaries have an entry for every value of \<^verbatim>\<open>IndexerType\<close>, so the defaults are
  never used for an enum member.
\<close>

definition INDEXER_RATES :: "string \<rightharpoonup> rat" where
  "INDEXER_RATES =
     [''spindexer'' \<mapsto> 10, ''serializer'' \<mapsto> 8, ''conveyor'' \<mapsto> 6,
      ''gravity_fed'' \<mapsto> 15, ''none'' \<mapsto> 0]"

definition INDEXER_JAM_RATES :: "string \<rightharpoonup> rat" where
  "INDEXER_JAM_RATES =
     [''spindexer'' \<mapsto> 1/200, ''serializer'' \<mapsto> 1/200, ''conveyor'' \<mapsto> 1/100,
      ''gravity_fed'' \<mapsto> 3/40, ''none'' \<mapsto> 0]"


section \<open>Field State Manager (src/field.py)\<close>

text \<open>
  \<^verbatim>\<open>FieldManager\<close> holds one \<^verbatim>\<open>FieldState\<close> in \<^verbatim>\<open>self._state\<close>; each method is a
  function from the state before to the state after (and the returned value).
\<close>

definition FieldManager_init :: FieldState where
  "FieldManager_init =
     \<lparr> neutral_fuel_available = INITIAL_NEUTRAL_FUEL,
       red_outpost_fuel = INITIAL_OUTPOST_FUEL,
       blue_outpost_fuel = INITIAL_OUTPOST_FUEL,
       fuel_in_flight = 0,
       fuel_in_transit = 0,
       transit_queue = [],
       red_tower_occupants = [],
       blue_tower_occupants = [],
       congestion_red_hub = 0,
       congestion_blue_hub = 0 \<rparr>"

text \<open>
  \<^verbatim>\<open>_process_transit_queue\<close>: one pass over the queue; the loop variables are the
  state and the list \<^verbatim>\<open>still_pending\<close>.
\<close>

fun process_transit_loop ::
  "rat \<Rightarrow> (rat \<times> int) list \<Rightarrow> FieldState \<Rightarrow> (rat \<times> int) list
     \<Rightarrow> FieldState \<times> (rat \<times> int) list" where
  "process_transit_loop current_time [] s still_pending = (s, still_pending)"
| "process_transit_loop current_time ((return_time, count) # rest) s still_pending =
     (if return_time \<le> current_time
      then process_transit_loop current_time rest
             (s\<lparr> neutral_fuel_available := neutral_fuel_available s + count,
                 fuel_in_transit := fuel_in_transit s - count \<rparr>)
             still_pending
      else process_transit_loop current_time rest s
             (still_pending @ [(return_time, count)]))"

definition process_transit_queue :: "rat \<Rightarrow> FieldState \<Rightarrow> FieldState" where
  "process_transit_queue current_time s =
     (case process_transit_loop current_time (transit_queue s) s [] of
        (s', still_pending) \<Rightarrow> s'\<lparr> transit_queue := still_pending \<rparr>)"

definition update_congestion :: "RobotState list \<Rightarrow> FieldState \<Rightarrow> FieldState" where
  "update_congestion robots s =
     (let red_at_hub = int (length (filter (\<lambda>r. position r = HUB \<and> alliance r = RED) robots));
          blue_at_hub = int (length (filter (\<lambda>r. position r = HUB \<and> alliance r \<noteq> RED) robots))
      in s\<lparr> congestion_red_hub := min 1 (of_int (max 0 (red_at_hub - 1)) / 2),
            congestion_blue_hub := min 1 (of_int (max 0 (blue_at_hub - 1)) / 2) \<rparr>)"

definition field_tick :: "rat \<Rightarrow> RobotState list \<Rightarrow> FieldState \<Rightarrow> FieldState" where
  "field_tick current_time robots s =
     update_congestion robots (process_transit_queue current_time s)"

definition fuel_shot :: "int \<Rightarrow> FieldState \<Rightarrow> FieldState" where
  "fuel_shot count s =
     (if count \<le> 0 then s
      else s\<lparr> fuel_in_flight := fuel_in_flight s + count \<rparr>)"

definition fuel_scored :: "string \<Rightarrow> int \<Rightarrow> rat \<Rightarrow> FieldState \<Rightarrow> FieldState" where
  "fuel_scored alliance_str count current_time s =
     (if count \<le> 0 then s
      else let return_time = current_time + FUEL_HUB_TRANSIT_TIME
           in s\<lparr> fuel_in_flight := fuel_in_flight s - count,
                 fuel_in_transit := fuel_in_transit s + count,
                 transit_queue := transit_queue s @ [(return_time, count)] \<rparr>)"

definition fuel_missed :: "int \<Rightarrow> rat \<Rightarrow> FieldState \<Rightarrow> FieldState" where
  "fuel_missed count current_time s =
     (if count \<le> 0 then s
      else let return_time = current_time + FUEL_MISS_RECOVERY_TIME
           in s\<lparr> fuel_in_flight := fuel_in_flight s - count,
                 fuel_in_transit := fuel_in_transit s + count,
                 transit_queue := transit_queue s @ [(return_time, count)] \<rparr>)"

text \<open>
  \<^verbatim>\<open>try_intake\<close> accepts an enum member or a plain string for \<^verbatim>\<open>alliance\<close> and
  \<^verbatim>\<open>zone\<close> and normalises both to strings (\<^verbatim>\<open>x.value if hasattr(x, "value") else str(x)\<close>).
\<close>

datatype alliance_arg = AllianceEnum Alliance | AllianceStr string
datatype zone_arg = ZoneEnum RobotZone | ZoneStr string

fun alliance_str_of :: "alliance_arg \<Rightarrow> string" where
  "alliance_str_of (AllianceEnum a) = Alliance_value a"
| "alliance_str_of (AllianceStr x) = x"

fun zone_str_of :: "zone_arg \<Rightarrow> string" where
  "zone_str_of (ZoneEnum z) = RobotZone_value z"
| "zone_str_of (ZoneStr x) = x"

definition try_intake :: "alliance_arg \<Rightarrow> zone_arg \<Rightarrow> int \<Rightarrow> FieldState \<Rightarrow> int \<times> FieldState" where
  "try_intake al zone amount s =
     (if amount \<le> 0 then (0, s)
      else
        let zone_str = zone_str_of zone;
            alliance_str = alliance_str_of al
        in if zone_str \<in> set [''neutral'', ''alliance'', ''midfield''] then
             (let available = neutral_fuel_available s;
                  actual = min amount available
              in (actual, s\<lparr> neutral_fuel_available := neutral_fuel_available s - actual \<rparr>))
           else if zone_str = ''outpost'' then
             (if alliance_str = ''red'' then
                (let available = red_outpost_fuel s;
                     actual = min amount available
                 in (actual, s\<lparr> red_outpost_fuel := red_outpost_fuel s - actual \<rparr>))
              else
                (let available = blue_outpost_fuel s;
                     actual = min amount available
                 in (actual, s\<lparr> blue_outpost_fuel := blue_outpost_fuel s - actual \<rparr>)))
           else
             (let available = neutral_fuel_available s;
                  actual = min amount available
              in (actual, s\<lparr> neutral_fuel_available := neutral_fuel_available s - actual \<rparr>)))"

text \<open>
  The pool that \<^verbatim>\<open>try_intake\<close> reads as \<^verbatim>\<open>available\<close> for a given alliance and zone:
  the alliance's outpost for the zone \<^verbatim>\<open>"outpost"\<close>, the neutral pool for every other
  zone (also the unknown ones).
\<close>

datatype pool = NeutralPool | RedOutpostPool | BlueOutpostPool

definition intake_pool :: "alliance_arg \<Rightarrow> zone_arg \<Rightarrow> pool" where
  "intake_pool al zone =
     (if zone_str_of zone = ''outpost''
      then (if alliance_str_of al = ''red'' then RedOutpostPool else BlueOutpostPool)
      else NeutralPool)"

fun pool_count :: "pool \<Rightarrow> FieldState \<Rightarrow> int" where
  "pool_count NeutralPool s = neutral_fuel_available s"
| "pool_count RedOutpostPool s = red_outpost_fuel s"
| "pool_count BlueOutpostPool s = blue_outpost_fuel s"

text \<open>
  \<^verbatim>\<open>push_fuel\<close>.  \<^verbatim>\<open>int(math.floor(actual_moved * PUSH_SCATTER_RATE))\<close> is the floor of
  one fifth of \<^verbatim>\<open>actual_moved\<close> (the float 0.20 lies just above one fifth, so the float
  product is never below the exact one and has the same floor for every count that
  fits the field).  The function is written once, returning besides the
  result and the new state the values of its local variables on the path taken, so that
  statements about \<^verbatim>\<open>actual_moved\<close>, \<^verbatim>\<open>scattered\<close> and \<^verbatim>\<open>arrived\<close> can be made:
  \<open>NoDraw\<close> is an early return before anything is drawn (\<^verbatim>\<open>amount <= 0\<close> or a source
  zone other than \<^verbatim>\<open>"neutral"\<close>/\<^verbatim>\<open>"outpost"\<close>), \<open>DrewNothing\<close> the return at
  \<^verbatim>\<open>actual_moved <= 0\<close>, \<open>Pushed\<close> the full path; their arguments are, in this
  order, \<^verbatim>\<open>available\<close>, \<^verbatim>\<open>actual_moved\<close>, \<^verbatim>\<open>scattered\<close> and \<^verbatim>\<open>arrived\<close>.
\<close>

datatype push_locals =
  NoDraw
| DrewNothing int int
| Pushed int int int int

definition push_fuel_run ::
  "string \<Rightarrow> string \<Rightarrow> int \<Rightarrow> FieldState \<Rightarrow> push_locals \<times> int \<times> FieldState" where
  "push_fuel_run from_zone to_zone amount s =
     (if amount \<le> 0 then (NoDraw, 0, s)
      else if from_zone = ''neutral'' \<or> from_zone = ''outpost'' then
        (let available = neutral_fuel_available s;
             actual_moved = min amount available;
             s1 = s\<lparr> neutral_fuel_available := neutral_fuel_available s - actual_moved \<rparr>
         in if actual_moved \<le> 0 then (DrewNothing available actual_moved, 0, s1)
            else
              let scattered = \<lfloor>of_int actual_moved * PUSH_SCATTER_RATE\<rfloor>;
                  arrived = actual_moved - scattered;
                  s2 = s1\<lparr> neutral_fuel_available := neutral_fuel_available s1 + scattered \<rparr>;
                  s3 = s2\<lparr> neutral_fuel_available := neutral_fuel_available s2 + arrived \<rparr>
              in (Pushed available actual_moved scattered arrived, arrived, s3))
      else (NoDraw, 0, s))"

definition push_fuel :: "string \<Rightarrow> string \<Rightarrow> int \<Rightarrow> FieldState \<Rightarrow> int \<times> FieldState" where
  "push_fuel from_zone to_zone amount s = snd (push_fuel_run from_zone to_zone amount s)"

definition hp_throw :: "string \<Rightarrow> rat \<Rightarrow> FieldState \<Rightarrow> FieldState" where
  "hp_throw alliance_str current_time s =
     (if alliance_str = ''red'' then
        (if red_outpost_fuel s \<le> 0 then s
         else (s\<lparr> red_outpost_fuel := red_outpost_fuel s - 1 \<rparr>)
                \<lparr> fuel_in_flight := fuel_in_flight s + 1 \<rparr>)
      else
        (if blue_outpost_fuel s \<le> 0 then s
         else (s\<lparr> blue_outpost_fuel := blue_outpost_fuel s - 1 \<rparr>)
                \<lparr> fuel_in_flight := fuel_in_flight s + 1 \<rparr>))"

definition hp_feed :: "string \<Rightarrow> FieldState \<Rightarrow> bool \<times> FieldState" where
  "hp_feed alliance_str s =
     (if alliance_str = ''red'' then
        (if red_outpost_fuel s \<le> 0 then (False, s)
         else (True, s\<lparr> red_outpost_fuel := red_outpost_fuel s - 1 \<rparr>))
      else
        (if blue_outpost_fuel s \<le> 0 then (False, s)
         else (True, s\<lparr> blue_outpost_fuel := blue_outpost_fuel s - 1 \<rparr>)))"

text \<open>
  The outpost counter that \<^verbatim>\<open>hp_throw\<close> and \<^verbatim>\<open>hp_feed\<close> select by
  \<^verbatim>\<open>alliance == "red"\<close>.
\<close>

definition outpost_fuel :: "string \<Rightarrow> FieldState \<Rightarrow> int" where
  "outpost_fuel alliance_str s =
     (if alliance_str = ''red'' then red_outpost_fuel s else blue_outpost_fuel s)"

text \<open>
  \<^verbatim>\<open>can_climb\<close> and \<^verbatim>\<open>register_climb\<close> select the occupancy list by
  \<^verbatim>\<open>alliance == "red"\<close>; every other string selects the blue list.
\<close>

definition tower_occupants :: "string \<Rightarrow> FieldState \<Rightarrow> string list" where
  "tower_occupants alliance_str s =
     (if alliance_str = ''red'' then red_tower_occupants s else blue_tower_occupants s)"

definition can_climb :: "string \<Rightarrow> string \<Rightarrow> FieldState \<Rightarrow> bool" where
  "can_climb alliance_str robot_id s =
     (let occupants = tower_occupants alliance_str s
      in if robot_id \<in> set occupants then True
         else int (length occupants) < MAX_TOWER_OCCUPANTS)"

definition register_climb :: "string \<Rightarrow> string \<Rightarrow> FieldState \<Rightarrow> FieldState" where
  "register_climb alliance_str robot_id s =
     (let occupants = tower_occupants alliance_str s
      in if robot_id \<notin> set occupants
         then (if alliance_str = ''red''
               then s\<lparr> red_tower_occupants := occupants @ [robot_id] \<rparr>
               else s\<lparr> blue_tower_occupants := occupants @ [robot_id] \<rparr>)
         else s)"

text \<open>
  \<^verbatim>\<open>assert_conservation\<close> raises \<^verbatim>\<open>AssertionError\<close> unless the total is
  \<^verbatim>\<open>TOTAL_FUEL\<close>; \<open>True\<close> stands for returning normally.
\<close>

definition assert_conservation :: "FieldState \<Rightarrow> RobotState list \<Rightarrow> bool" where
  "assert_conservation s robots = (total_fuel_check s robots = TOTAL_FUEL)"

section \<open>Pseudorandom streams\<close>

text \<open>
  A \<^verbatim>\<open>random.Random\<close> object is modelled by the stream of values its future calls
  return; a call takes the head and leaves the tail.  \<^verbatim>\<open>random()\<close> returns the next
  value, \<^verbatim>\<open>uniform(a, b)\<close> returns \<^verbatim>\<open>a + (b - a) * random()\<close>, and
  \<^verbatim>\<open>gauss(mu, sigma)\<close> returns \<^verbatim>\<open>mu + z * sigma\<close> for the next deviate \<^verbatim>\<open>z\<close>.
  The streams are arbitrary: a statement proved for every stream holds for whatever
  values the generator produces.
\<close>

type_synonym rng = "rat stream"

definition rng_random :: "rng \<Rightarrow> rat \<times> rng" where
  "rng_random g = (shd g, stl g)"

definition rng_uniform :: "rat \<Rightarrow> rat \<Rightarrow> rng \<Rightarrow> rat \<times> rng" where
  "rng_uniform a b g = (a + (b - a) * shd g, stl g)"

definition rng_gauss :: "rat \<Rightarrow> rat \<Rightarrow> rng \<Rightarrow> rat \<times> rng" where
  "rng_gauss mu sigma g = (mu + shd g * sigma, stl g)"

text \<open>
  Python's \<^verbatim>\<open>int(x)\<close> truncates toward zero; \<^verbatim>\<open>round(x)\<close> rounds to the nearest
  integer, a half to the even neighbour.
\<close>

definition py_int :: "rat \<Rightarrow> int" where
  "py_int x = (if 0 \<le> x then \<lfloor>x\<rfloor> else \<lceil>x\<rceil>)"

definition py_round :: "rat \<Rightarrow> int" where
  "py_round x =
     (let f = \<lfloor>x\<rfloor>; d = x - of_int f
      in if d < 1/2 then f
         else if 1/2 < d then f + 1
         else if even f then f else f + 1)"


section \<open>Robot Behavior Engine (src/robot.py)\<close>

text \<open>
  The fields of \<^verbatim>\<open>RobotConfig\<close> and \<^verbatim>\<open>RobotRuntimeState\<close> that the functions below
  read or write; a field whose name also occurs in \<^verbatim>\<open>RobotState\<close> carries the prefix
  \<open>cfg_\<close> or \<open>rt_\<close>.
\<close>

record RobotConfig =
  cfg_archetype :: Archetype
  cfg_shooter_type :: ShooterType
  cfg_indexer_type :: IndexerType
  cfg_storage_capacity :: int
  cfg_intake_rate :: rat
  cfg_shoot_rate :: rat
  cfg_intake_quality :: IntakeQuality
  cfg_auto_fuel_target :: int

record RobotRuntimeState =
  rt_intake_status :: MechanismStatus
  rt_shooter_status :: MechanismStatus
  turret_status :: TurretStatus
  fouls_drawn :: int
  fuel_pushed_to_zone :: int

text \<open>
  The attributes of a \<^verbatim>\<open>Robot\<close> object used by the scoring cycle, the push cycle and
  shot resolution.  \<^verbatim>\<open>_cycle_total_time\<close> is not set by \<^verbatim>\<open>__init__\<close>: it exists only
  after the first \<^verbatim>\<open>_start_scoring_cycle\<close>, hence the \<open>option\<close>; reading it while unset
  raises \<^verbatim>\<open>AttributeError\<close>.
\<close>

datatype py_error = AttributeError

record Robot =
  robot_id :: string
  robot_alliance :: Alliance
  config :: RobotConfig
  rng :: rng
  state :: RobotState
  runtime :: RobotRuntimeState
  cycle_time_mean :: rat
  cycle_time_stddev :: rat
  accuracy :: rat
  shoot_rate :: rat
  intake_rate :: rat
  effective_shooter :: ShooterType
  intake_quality :: IntakeQuality
  stockpile_ready :: bool
  cycle_phase :: string
  cycle_total_time :: "rat option"

text \<open>
  The object a robot receives as \<^verbatim>\<open>field_manager\<close> is duck-typed: besides
  \<^verbatim>\<open>try_intake\<close> the robot calls \<^verbatim>\<open>return_fuel_to_field\<close> and
  \<^verbatim>\<open>add_fuel_to_alliance_zone\<close>, each only under
  \<^verbatim>\<open>hasattr(field_manager, ...)\<close>.  The two optional methods are \<open>option\<close> values;
  class \<^verbatim>\<open>FieldManager\<close> of \<^verbatim>\<open>field.py\<close>, the only one the match engine passes,
  defines neither.
\<close>

record field_manager_methods =
  return_fuel_to_field :: "(int \<Rightarrow> FieldState \<Rightarrow> FieldState) option"
  add_fuel_to_alliance_zone :: "(Alliance \<Rightarrow> int \<Rightarrow> FieldState \<Rightarrow> FieldState) option"

definition FieldManager_methods :: field_manager_methods where
  "FieldManager_methods =
     \<lparr> return_fuel_to_field = None, add_fuel_to_alliance_zone = None \<rparr>"

fun shoot_rate_for_type :: "ShooterType \<Rightarrow> rat" where
  "shoot_rate_for_type SINGLE_TURRET = SHOOT_RATE_SINGLE"
| "shoot_rate_for_type SINGLE_FIXED = SHOOT_RATE_SINGLE"
| "shoot_rate_for_type DOUBLE_FIXED = SHOOT_RATE_DOUBLE"
| "shoot_rate_for_type TRIPLE_FIXED = SHOOT_RATE_TRIPLE"
| "shoot_rate_for_type DUMPER = SHOOT_RATE_DUMPER"
| "shoot_rate_for_type ShooterType_NONE = 0"

text \<open>
  \<^verbatim>\<open>Robot.__init__\<close>.  The three values it reads from the archetype defaults
  \<^verbatim>\<open>self._arch\<close> (\<^verbatim>\<open>cycle_time_mean\<close>, \<^verbatim>\<open>cycle_time_stddev\<close>, \<^verbatim>\<open>accuracy\<close>) are
  arguments here.
\<close>

definition Robot_init ::
  "string \<Rightarrow> Alliance \<Rightarrow> RobotConfig \<Rightarrow> rng \<Rightarrow> rat \<Rightarrow> rat \<Rightarrow> rat \<Rightarrow> Robot" where
  "Robot_init rid al cfg g arch_cycle_time_mean arch_cycle_time_stddev arch_accuracy =
     (let indexer_rate = (case INDEXER_RATES (IndexerType_value (cfg_indexer_type cfg)) of
                            Some x \<Rightarrow> x | None \<Rightarrow> 6)
      in \<lparr> robot_id = rid,
           robot_alliance = al,
           config = cfg,
           rng = g,
           state =
             \<lparr> id' = rid, alliance = al, archetype = cfg_archetype cfg, position = ALLIANCE,
               fuel_held = 0, fuel_capacity = cfg_storage_capacity cfg,
               storage_capacity = cfg_storage_capacity cfg,
               is_stockpiling = False, is_climbing = False, climb_level = 0,
               is_defending = False, is_pushing_fuel = False, fuel_being_pushed = 0,
               current_action = IDLE, action_timer = 0, shift_role = SCORER,
               intake_status = NOMINAL, shooter_status = NOMINAL,
               fouls_drawn_this_match = 0 \<rparr>,
           runtime =
             \<lparr> rt_intake_status = NOMINAL, rt_shooter_status = NOMINAL,
               turret_status = TurretStatus_NOMINAL, fouls_drawn = 0,
               fuel_pushed_to_zone = 0 \<rparr>,
           cycle_time_mean = arch_cycle_time_mean,
           cycle_time_stddev = arch_cycle_time_stddev,
           accuracy = arch_accuracy,
           shoot_rate = (if 0 < cfg_shoot_rate cfg then min (cfg_shoot_rate cfg) indexer_rate
                         else shoot_rate_for_type (cfg_shooter_type cfg)),
           intake_rate = cfg_intake_rate cfg,
           effective_shooter = cfg_shooter_type cfg,
           intake_quality = cfg_intake_quality cfg,
           stockpile_ready = False,
           cycle_phase = ''idle'',
           cycle_total_time = None \<rparr>)"

text \<open>
  An example robot: the configuration of the archetype \<^verbatim>\<open>everybot\<close> as
  \<^verbatim>\<open>ARCHETYPE_DEFAULTS\<close> gives it (capacity 10, intake 4 and shooting 6 fuel per second,
  fixed single shooter, conveyor indexer, slow pickup, 4 fuel preloaded; cycle time
  18.5 s with deviation 2.775 s, accuracy 0.575).
\<close>

definition everybot_config :: RobotConfig where
  "everybot_config =
     \<lparr> cfg_archetype = EVERYBOT, cfg_shooter_type = SINGLE_FIXED, cfg_indexer_type = CONVEYOR,
       cfg_storage_capacity = 10, cfg_intake_rate = 4, cfg_shoot_rate = 6,
       cfg_intake_quality = SLOW_PICKUP, cfg_auto_fuel_target = 4 \<rparr>"

definition everybot :: "string \<Rightarrow> Alliance \<Rightarrow> rng \<Rightarrow> Robot" where
  "everybot rid al g = Robot_init rid al everybot_config g (37/2) (111/40) (23/40)"

fun success_range :: "IntakeQuality \<Rightarrow> rat \<times> rat" where
  "success_range TOUCH_AND_GO = (95/100, 99/100)"
| "success_range SLOW_PICKUP = (80/100, 90/100)"
| "success_range PUSH_AROUND = (50/100, 70/100)"
| "success_range NO_GROUND_PICKUP = (0, 0)"

definition align_time_for_shooter :: "ShooterType \<Rightarrow> TurretStatus \<Rightarrow> rat" where
  "align_time_for_shooter shooter_type ts =
     (if shooter_type = SINGLE_TURRET then
        (if ts = STUCK then FIXED_ALIGN_TIME else TURRET_ALIGN_TIME)
      else if shooter_type = DUMPER then 0
      else FIXED_ALIGN_TIME)"

definition get_accuracy :: "Robot \<Rightarrow> rat" where
  "get_accuracy r = accuracy r"

definition get_shoot_rate :: "Robot \<Rightarrow> rat" where
  "get_shoot_rate r = shoot_rate r"

definition get_effective_intake_quality :: "Robot \<Rightarrow> IntakeQuality" where
  "get_effective_intake_quality r =
     (if rt_intake_status (runtime r) = BROKEN then NO_GROUND_PICKUP
      else if rt_intake_status (runtime r) = DEGRADED then
        (let quality = intake_quality r
         in if quality = TOUCH_AND_GO then SLOW_PICKUP
            else if quality = SLOW_PICKUP then PUSH_AROUND
            else quality)
      else intake_quality r)"

subsection \<open>Scoring cycle\<close>

definition start_drive_to_fuel :: "rat \<Rightarrow> Robot \<Rightarrow> Robot" where
  "start_drive_to_fuel total_cycle r =
     (let drive_time = total_cycle * (1/4)
      in r\<lparr> state := (state r)\<lparr> current_action := DRIVING, position := NEUTRAL,
                                action_timer := drive_time \<rparr>,
            cycle_phase := ''drive_to_fuel'' \<rparr>)"

definition start_scoring_cycle :: "Robot \<Rightarrow> Robot" where
  "start_scoring_cycle r =
     (case rng_gauss (cycle_time_mean r) (cycle_time_stddev r) (rng r) of
        (drawn, g) \<Rightarrow>
          let cycle_time = max (cycle_time_mean r * (1/2)) drawn
          in start_drive_to_fuel cycle_time
               (r\<lparr> rng := g, cycle_total_time := Some cycle_time \<rparr>))"

definition begin_drive_to_hub :: "Robot \<Rightarrow> py_error + Robot" where
  "begin_drive_to_hub r =
     (case cycle_total_time r of
        None \<Rightarrow> Inl AttributeError
      | Some total_time \<Rightarrow>
          let drive_time = total_time * (1/5)
          in Inr (r\<lparr> state := (state r)\<lparr> current_action := DRIVING, position := HUB,
                                         action_timer := drive_time \<rparr>,
                     cycle_phase := ''drive_to_hub'' \<rparr>))"

text \<open>
  The pickup loop of \<^verbatim>\<open>_begin_intake\<close>, \<^verbatim>\<open>for _ in range(fuel_needed)\<close>; its variables
  are \<^verbatim>\<open>fuel_picked\<close>, the robot's generator and the field state.
\<close>

fun intake_loop ::
  "nat \<Rightarrow> Alliance \<Rightarrow> RobotZone \<Rightarrow> bool \<Rightarrow> rat \<Rightarrow> rat \<Rightarrow> int \<times> rng \<times> FieldState
     \<Rightarrow> int \<times> rng \<times> FieldState" where
  "intake_loop 0 al pos degraded success_lo success_hi acc = acc"
| "intake_loop (Suc n) al pos degraded success_lo success_hi (fuel_picked, g, fs) =
     (case rng_uniform success_lo success_hi g of
        (drawn_rate, g1) \<Rightarrow>
          let success_rate =
                (if degraded then min drawn_rate DEGRADED_INTAKE_SUCCESS_RATE else drawn_rate)
          in case rng_random g1 of
               (u, g2) \<Rightarrow>
                 if u < success_rate then
                   (case try_intake (AllianceEnum al) (ZoneEnum pos) 1 fs of
                      (got, fs1) \<Rightarrow>
                        if 0 < got
                        then intake_loop n al pos degraded success_lo success_hi
                               (fuel_picked + got, g2, fs1)
                        else (fuel_picked, g2, fs1))
                 else intake_loop n al pos degraded success_lo success_hi (fuel_picked, g2, fs))"

definition begin_intake :: "FieldState \<Rightarrow> Robot \<Rightarrow> py_error + (FieldState \<times> Robot)" where
  "begin_intake fs r =
     (let quality = get_effective_intake_quality r
      in if quality = NO_GROUND_PICKUP then
           Inr (fs, r\<lparr> state := (state r)\<lparr> current_action := DRIVING, position := OUTPOST,
                                           action_timer := 2 \<rparr>,
                       cycle_phase := ''drive_to_outpost'' \<rparr>)
         else
           case success_range quality of
             (success_lo, success_hi) \<Rightarrow>
               let fuel_needed = storage_capacity (state r) - fuel_held (state r)
               in if fuel_needed \<le> 0 then
                    (case begin_drive_to_hub r of
                       Inl e \<Rightarrow> Inl e
                     | Inr r' \<Rightarrow> Inr (fs, r'))
                  else
                    case intake_loop (nat fuel_needed) (robot_alliance r) (position (state r))
                           (rt_intake_status (runtime r) = DEGRADED) success_lo success_hi
                           (0, rng r, fs) of
                      (fuel_picked, g, fs') \<Rightarrow>
                        let base_rate = intake_rate r;
                            effective_rate =
                              (if rt_intake_status (runtime r) = DEGRADED
                               then base_rate * DEGRADED_INTAKE_SPEED_MULT else base_rate);
                            total_intake_time =
                              (if 0 < effective_rate \<and> 0 < fuel_picked
                               then of_int fuel_picked / effective_rate
                               else TICK_INTERVAL)
                        in Inr (fs',
                                r\<lparr> rng := g,
                                   state := (state r)\<lparr> fuel_held := fuel_held (state r) + fuel_picked,
                                                      current_action := INTAKING,
                                                      action_timer := max total_intake_time TICK_INTERVAL \<rparr>,
                                   cycle_phase := ''intaking'' \<rparr>))"

definition finish_intake :: "Robot \<Rightarrow> py_error + Robot" where
  "finish_intake r = begin_drive_to_hub r"

definition begin_shooting :: "Robot \<Rightarrow> Robot" where
  "begin_shooting r =
     (if fuel_held (state r) \<le> 0 then
        r\<lparr> state := (state r)\<lparr> current_action := IDLE \<rparr>, cycle_phase := ''idle'' \<rparr>
      else
        let indexer_jam =
              (case INDEXER_JAM_RATES (IndexerType_value (cfg_indexer_type (config r))) of
                 Some x \<Rightarrow> x | None \<Rightarrow> 1/100)
        in case rng_random (rng r) of
             (u, g) \<Rightarrow>
               if u < indexer_jam then
                 r\<lparr> rng := g,
                    state := (state r)\<lparr> current_action := CLEARING_JAM,
                                       action_timer := JAM_CLEAR_TIME \<rparr>,
                    cycle_phase := ''shooting'' \<rparr>
               else
                 let rate = (if rt_shooter_status (runtime r) = DEGRADED
                             then shoot_rate r * (67/100) else shoot_rate r)
                 in if rate \<le> 0 then
                      r\<lparr> rng := g,
                         state := (state r)\<lparr> current_action := IDLE \<rparr>,
                         cycle_phase := ''idle'' \<rparr>
                    else
                      let shoot_time = of_int (fuel_held (state r)) / rate
                      in r\<lparr> rng := g,
                            state := (state r)\<lparr> current_action := SHOOTING,
                                               action_timer := shoot_time \<rparr>,
                            cycle_phase := ''shooting'' \<rparr>)"

definition begin_align :: "Robot \<Rightarrow> Robot" where
  "begin_align r =
     (let align_time = align_time_for_shooter (effective_shooter r) (turret_status (runtime r))
      in if 0 < align_time then
           r\<lparr> state := (state r)\<lparr> current_action := DRIVING, action_timer := align_time \<rparr>,
              cycle_phase := ''aligning'' \<rparr>
         else begin_shooting r)"

definition finish_shooting :: "Robot \<Rightarrow> Robot" where
  "finish_shooting r =
     r\<lparr> state := (state r)\<lparr> fuel_held := 0, current_action := IDLE, position := HUB \<rparr>,
        cycle_phase := ''idle'' \<rparr>"

definition finish_dumping :: "Robot \<Rightarrow> Robot" where
  "finish_dumping r =
     r\<lparr> state := (state r)\<lparr> fuel_held := 0, current_action := IDLE, is_stockpiling := False \<rparr>,
        stockpile_ready := False,
        cycle_phase := ''idle'' \<rparr>"

definition on_scoring_action_complete ::
  "FieldState \<Rightarrow> Robot \<Rightarrow> py_error + (FieldState \<times> Robot)" where
  "on_scoring_action_complete fs r =
     (let phase = cycle_phase r
      in if phase = ''drive_to_fuel'' then begin_intake fs r
         else if phase = ''intaking'' then
           (case finish_intake r of Inl e \<Rightarrow> Inl e | Inr r' \<Rightarrow> Inr (fs, r'))
         else if phase = ''drive_to_hub'' then Inr (fs, begin_align r)
         else if phase = ''aligning'' then Inr (fs, begin_shooting r)
         else if phase = ''shooting'' then Inr (fs, finish_shooting r)
         else if phase = ''dumping'' then Inr (fs, finish_dumping r)
         else Inr (fs, r))"

definition tick_scoring :: "FieldState \<Rightarrow> rat \<Rightarrow> Robot \<Rightarrow> py_error + (FieldState \<times> Robot)" where
  "tick_scoring fs dt r =
     (if 0 < action_timer (state r) then
        (let r1 = r\<lparr> state := (state r)\<lparr> action_timer := action_timer (state r) - dt \<rparr> \<rparr>
         in if 0 < action_timer (state r1) then Inr (fs, r1)
            else on_scoring_action_complete fs r1)
      else if current_action (state r) = IDLE then
        (if effective_shooter r = ShooterType_NONE then
           Inr (fs, r\<lparr> state := (state r)\<lparr> current_action := IDLE \<rparr> \<rparr>)
         else Inr (fs, start_scoring_cycle r))
      else Inr (fs, r))"

subsection \<open>Fuel pushing\<close>

definition start_push_cycle :: "Robot \<Rightarrow> Robot" where
  "start_push_cycle r =
     r\<lparr> state := (state r)\<lparr> current_action := PUSHING_FUEL, position := NEUTRAL,
                            is_pushing_fuel := True, action_timer := PUSH_TRIP_TIME \<rparr>,
        cycle_phase := ''pushing'' \<rparr>"

definition complete_push_trip ::
  "field_manager_methods \<Rightarrow> FieldState \<Rightarrow> Robot \<Rightarrow> FieldState \<times> Robot" where
  "complete_push_trip fm fs r =
     (case try_intake (AllianceEnum (robot_alliance r)) (ZoneEnum NEUTRAL) PUSH_FUEL_PER_TRIP fs of
        (pushed, fs1) \<Rightarrow>
          let scattered = py_round (of_int pushed * PUSH_SCATTER_RATE);
              net_pushed = max 0 (pushed - scattered);
              fs2 = (case return_fuel_to_field fm of
                       Some meth \<Rightarrow> if 0 < scattered then meth scattered fs1 else fs1
                     | None \<Rightarrow> fs1);
              r1 = r\<lparr> runtime := (runtime r)\<lparr> fuel_pushed_to_zone :=
                                                 fuel_pushed_to_zone (runtime r) + net_pushed \<rparr>,
                      state := (state r)\<lparr> fuel_being_pushed := 0 \<rparr> \<rparr>;
              fs3 = (case add_fuel_to_alliance_zone fm of
                       Some meth \<Rightarrow> if 0 < net_pushed then meth (robot_alliance r) net_pushed fs2
                                    else fs2
                     | None \<Rightarrow> fs2)
          in (fs3,
              r1\<lparr> state := (state r1)\<lparr> current_action := IDLE, is_pushing_fuel := False \<rparr>,
                  cycle_phase := ''idle'' \<rparr>))"

definition tick_pushing ::
  "field_manager_methods \<Rightarrow> FieldState \<Rightarrow> rat \<Rightarrow> Robot \<Rightarrow> FieldState \<times> Robot" where
  "tick_pushing fm fs dt r =
     (if 0 < action_timer (state r) then
        (let r1 = r\<lparr> state := (state r)\<lparr> action_timer := action_timer (state r) - dt \<rparr> \<rparr>
         in if action_timer (state r1) \<le> 0 then complete_push_trip fm fs r1
            else (fs, r1))
      else if current_action (state r) = IDLE then (fs, start_push_cycle r)
      else (fs, r))"

section \<open>Match Engine (src/match_engine.py)\<close>

fun Phase_value :: "Phase \<Rightarrow> string" where
  "Phase_value AUTO = ''auto''"
| "Phase_value TRANSITION = ''transition''"
| "Phase_value SHIFT1 = ''shift1''"
| "Phase_value SHIFT2 = ''shift2''"
| "Phase_value SHIFT3 = ''shift3''"
| "Phase_value SHIFT4 = ''shift4''"
| "Phase_value ENDGAME = ''endgame''"

definition PHASE_BOUNDARIES :: "(rat \<times> rat \<times> Phase) list" where
  "PHASE_BOUNDARIES =
     [(140, 160, AUTO), (130, 140, TRANSITION), (105, 130, SHIFT1), (80, 105, SHIFT2),
      (55, 80, SHIFT3), (30, 55, SHIFT4), (0, 30, ENDGAME)]"

fun get_phase_loop :: "(rat \<times> rat \<times> Phase) list \<Rightarrow> rat \<Rightarrow> Phase option" where
  "get_phase_loop [] t = None"
| "get_phase_loop ((lo, hi, phase) # rest) t =
     (if lo \<le> t \<and> t < hi then Some phase else get_phase_loop rest t)"

definition get_phase :: "rat \<Rightarrow> Phase" where
  "get_phase t =
     (case get_phase_loop PHASE_BOUNDARIES t of
        Some phase \<Rightarrow> phase
      | None \<Rightarrow> if 160 \<le> t then AUTO else ENDGAME)"

text \<open>
  The attributes of a \<^verbatim>\<open>MatchEngine\<close> that phase handling and shot resolution read or
  write.  \<^verbatim>\<open>self.field\<close> is the \<^verbatim>\<open>FieldManager\<close>, held here as its state.  The
  engine's own counters \<^verbatim>\<open>self.red_fuel_scored\<close> and \<^verbatim>\<open>self.blue_fuel_scored\<close> carry the
  prefix \<open>eng_\<close>, the fields of the same name in \<^verbatim>\<open>MatchState\<close> do not.
  \<^verbatim>\<open>_auto_winner\<close> is not set by \<^verbatim>\<open>__init__\<close>, hence the \<open>option\<close>.  An inner
  dictionary \<^verbatim>\<open>{"red": r, "blue": b}\<close> of \<^verbatim>\<open>phase_scores\<close> is the pair \<open>(r, b)\<close>.
\<close>

record MatchEngine =
  eng_rng :: rng
  eng_field :: FieldState
  match_state :: MatchState
  all_robots :: "Robot list"
  eng_red_fuel_scored :: int
  eng_blue_fuel_scored :: int
  phase_scores :: "string \<rightharpoonup> int \<times> int"
  red_auto_score :: int
  blue_auto_score :: int
  auto_winner :: "string option"

definition determine_auto_winner :: "MatchEngine \<Rightarrow> MatchEngine" where
  "determine_auto_winner e =
     (let e1 = e\<lparr> red_auto_score := eng_red_fuel_scored e,
                  blue_auto_score := eng_blue_fuel_scored e \<rparr>
      in if blue_auto_score e1 < red_auto_score e1 then e1\<lparr> auto_winner := Some ''red'' \<rparr>
         else if red_auto_score e1 < blue_auto_score e1 then e1\<lparr> auto_winner := Some ''blue'' \<rparr>
         else e1\<lparr> auto_winner := Some ''red'' \<rparr>)"

definition update_hub_activation :: "Phase \<Rightarrow> MatchEngine \<Rightarrow> MatchEngine" where
  "update_hub_activation phase e =
     (let winner = (case auto_winner e of Some w \<Rightarrow> w | None \<Rightarrow> ''red'');
          winner_active = (phase \<in> set [SHIFT2, SHIFT4]);
          loser_active = (\<not> winner_active)
      in if winner = ''red''
         then e\<lparr> match_state := (match_state e)\<lparr> red_hub_active := winner_active,
                                                blue_hub_active := loser_active \<rparr> \<rparr>
         else e\<lparr> match_state := (match_state e)\<lparr> red_hub_active := loser_active,
                                                blue_hub_active := winner_active \<rparr> \<rparr>)"

definition on_phase_change :: "Phase \<Rightarrow> Phase \<Rightarrow> MatchEngine \<Rightarrow> MatchEngine" where
  "on_phase_change old_phase new_phase e =
     (let e1 = (if old_phase = AUTO \<and> new_phase = TRANSITION
                then determine_auto_winner e else e);
          e2 = (if new_phase \<in> set [SHIFT1, SHIFT2, SHIFT3, SHIFT4]
                then update_hub_activation new_phase e1 else e1)
      in if new_phase = ENDGAME
         then e2\<lparr> match_state := (match_state e2)\<lparr> red_hub_active := True,
                                                  blue_hub_active := True \<rparr> \<rparr>
         else e2)"

text \<open>
  The head of the loop body of \<^verbatim>\<open>run\<close>: the phase is recomputed from
  \<^verbatim>\<open>time_remaining\<close>, a change of phase is handled, and the entry of
  \<^verbatim>\<open>phase_scores\<close> for the phase is created if missing.
\<close>

definition run_phase_step :: "MatchEngine \<Rightarrow> MatchEngine" where
  "run_phase_step e =
     (let new_phase = get_phase (time_remaining (match_state e));
          e1 = (if new_phase \<noteq> current_phase (match_state e)
                then (let e' = on_phase_change (current_phase (match_state e)) new_phase e
                      in e'\<lparr> match_state := (match_state e')\<lparr> current_phase := new_phase \<rparr> \<rparr>)
                else e);
          phase_key = Phase_value new_phase
      in if phase_key \<notin> dom (phase_scores e1)
         then e1\<lparr> phase_scores := (phase_scores e1)(phase_key \<mapsto> (0, 0)) \<rparr>
         else e1)"

subsection \<open>Shot resolution\<close>

text \<open>
  The inner loop of \<^verbatim>\<open>_resolve_shooting\<close>, \<^verbatim>\<open>for _ in range(fuel_this_tick)\<close>, over the
  robot's state, the field, the engine's generator and the counters \<^verbatim>\<open>hits\<close> and
  \<^verbatim>\<open>misses\<close>.
\<close>

fun shoot_units ::
  "nat \<Rightarrow> rat \<Rightarrow> RobotState \<times> FieldState \<times> rng \<times> int \<times> int
     \<Rightarrow> RobotState \<times> FieldState \<times> rng \<times> int \<times> int" where
  "shoot_units 0 acc x = x"
| "shoot_units (Suc n) acc (st, fs, g, hits, misses) =
     (if fuel_held st \<le> 0 then (st, fs, g, hits, misses)
      else
        let st1 = st\<lparr> fuel_held := fuel_held st - 1 \<rparr>;
            fs1 = fuel_shot 1 fs
        in case rng_random g of
             (u, g1) \<Rightarrow>
               if u < acc then shoot_units n acc (st1, fs1, g1, hits + 1, misses)
               else shoot_units n acc (st1, fs1, g1, hits, misses + 1))"

text \<open>The body of the outer loop, for one robot.\<close>

definition resolve_shooting_robot :: "rat \<Rightarrow> Robot \<Rightarrow> MatchEngine \<Rightarrow> Robot \<times> MatchEngine" where
  "resolve_shooting_robot elapsed robot e =
     (let st = state robot
      in if current_action st \<notin> set [SHOOTING, DUMPING] then (robot, e)
         else if fuel_held st \<le> 0 then (robot, e)
         else
           let rate = get_shoot_rate robot
           in if rate \<le> 0 then (robot, e)
              else
                let fuel_this_tick =
                      min (fuel_held st) (max 1 (py_int (rate * TICK_INTERVAL + 1/2)));
                    al = alliance st;
                    hub_active = (if al = RED then red_hub_active (match_state e)
                                  else blue_hub_active (match_state e));
                    acc = get_accuracy robot
                in case shoot_units (nat fuel_this_tick) acc
                          (st, eng_field e, eng_rng e, 0, 0) of
                     (st', fs', g', hits, misses) \<Rightarrow>
                       let e1 = e\<lparr> eng_field := fs', eng_rng := g' \<rparr>;
                           e2 =
                             (if 0 < hits then
                                (let alliance_str = Alliance_value al;
                                     e1a = e1\<lparr> eng_field :=
                                                 fuel_scored alliance_str hits elapsed (eng_field e1) \<rparr>
                                 in if hub_active then
                                      (let points = hits * FUEL_ACTIVE_HUB_POINTS;
                                           ms = match_state e1a;
                                           e1b =
                                             (if al = RED then
                                                e1a\<lparr> eng_red_fuel_scored := eng_red_fuel_scored e1a + hits,
                                                     match_state :=
                                                       ms\<lparr> red_fuel_scored := red_fuel_scored ms + hits,
                                                           red_score := red_score ms + points \<rparr> \<rparr>
                                              else
                                                e1a\<lparr> eng_blue_fuel_scored := eng_blue_fuel_scored e1a + hits,
                                                     match_state :=
                                                       ms\<lparr> blue_fuel_scored := blue_fuel_scored ms + hits,
                                                           blue_score := blue_score ms + points \<rparr> \<rparr>);
                                           phase_key = Phase_value (current_phase (match_state e1b))
                                       in case phase_scores e1b phase_key of
                                            Some (red_pts, blue_pts) \<Rightarrow>
                                              if al = RED
                                              then e1b\<lparr> phase_scores :=
                                                     (phase_scores e1b)(phase_key \<mapsto> (red_pts + points, blue_pts)) \<rparr>
                                              else e1b\<lparr> phase_scores :=
                                                     (phase_scores e1b)(phase_key \<mapsto> (red_pts, blue_pts + points)) \<rparr>
                                          | None \<Rightarrow> e1b)
                                    else e1a)
                              else e1);
                           e3 = (if 0 < misses
                                 then e2\<lparr> eng_field := fuel_missed misses elapsed (eng_field e2) \<rparr>
                                 else e2)
                       in (robot\<lparr> state := st' \<rparr>, e3))"

fun resolve_shooting_loop :: "rat \<Rightarrow> Robot list \<Rightarrow> MatchEngine \<Rightarrow> Robot list \<times> MatchEngine" where
  "resolve_shooting_loop elapsed [] e = ([], e)"
| "resolve_shooting_loop elapsed (robot # rest) e =
     (case resolve_shooting_robot elapsed robot e of
        (robot', e1) \<Rightarrow>
          (case resolve_shooting_loop elapsed rest e1 of
             (rest', e2) \<Rightarrow> (robot' # rest', e2)))"

definition resolve_shooting :: "rat \<Rightarrow> MatchEngine \<Rightarrow> MatchEngine" where
  "resolve_shooting elapsed e =
     (case resolve_shooting_loop elapsed (all_robots e) e of
        (robots', e') \<Rightarrow> e'\<lparr> all_robots := robots' \<rparr>)"

subsection \<open>Preload\<close>

definition AUTO_PRELOAD_MAX :: int where "AUTO_PRELOAD_MAX = 8"

fun distribute_preload_loop :: "Robot list \<Rightarrow> int \<Rightarrow> Robot list" where
  "distribute_preload_loop [] remaining = []"
| "distribute_preload_loop (robot # rest) remaining =
     (let target = min (cfg_auto_fuel_target (config robot))
                     (min AUTO_PRELOAD_MAX (cfg_storage_capacity (config robot)));
          fuel = min target remaining
      in robot\<lparr> state := (state robot)\<lparr> fuel_held := fuel \<rparr> \<rparr>
           # distribute_preload_loop rest (remaining - fuel))"

definition distribute_preload :: "Robot list \<Rightarrow> int \<Rightarrow> Robot list" where
  "distribute_preload robots total_preload =
     (if robots = [] then robots else distribute_preload_loop robots total_preload)"

subsection \<open>Phase schedule of a run\<close>

text \<open>
  The flag of one team's hub, selected the way the source selects it
  (\<^verbatim>\<open>red_hub_active if alliance == "red" else blue_hub_active\<close>); the other team; and the
  winner \<^verbatim>\<open>_update_hub_activation\<close> reads,
  \<^verbatim>\<open>getattr(self, "_auto_winner", "red")\<close>.
\<close>

definition hub_active_of :: "string \<Rightarrow> MatchState \<Rightarrow> bool" where
  "hub_active_of alliance_str ms =
     (if alliance_str = ''red'' then red_hub_active ms else blue_hub_active ms)"

definition other_alliance :: "string \<Rightarrow> string" where
  "other_alliance alliance_str = (if alliance_str = ''red'' then ''blue'' else ''red'')"

definition current_auto_winner :: "MatchEngine \<Rightarrow> string" where
  "current_auto_winner e = (case auto_winner e of Some w \<Rightarrow> w | None \<Rightarrow> ''red'')"

text \<open>
  The loop of \<^verbatim>\<open>run\<close>.  Each iteration handles the phase (\<open>run_phase_step\<close>), runs
  steps 1 to 6 of the body (field tick, human players, robots, shot resolution,
  defense, fouls) and subtracts \<^verbatim>\<open>TICK_INTERVAL\<close> from \<^verbatim>\<open>time_remaining\<close>.  Steps 1 to
  6 are the parameter \<open>rest\<close>, indexed by the iteration: none of them assigns
  \<^verbatim>\<open>time_remaining\<close>, \<^verbatim>\<open>current_phase\<close>, a hub flag or \<^verbatim>\<open>_auto_winner\<close>, whose
  only assignments are in the functions above and in
  \<^verbatim>\<open>self.match_state.time_remaining -= dt\<close>.  \<open>run_ticks rest n e\<close> is the engine
  after the first \<open>n\<close> iterations; they all run while \<^verbatim>\<open>time_remaining > 0\<close>, that
  is for \<open>n \<le> 320\<close> from the initial 160 seconds.  \<open>clock_view\<close> collects the
  attributes that \<open>rest\<close> leaves alone.
\<close>

definition advance_time :: "MatchEngine \<Rightarrow> MatchEngine" where
  "advance_time e =
     e\<lparr> match_state := (match_state e)\<lparr> time_remaining :=
                            time_remaining (match_state e) - TICK_INTERVAL \<rparr> \<rparr>"

primrec run_ticks :: "(nat \<Rightarrow> MatchEngine \<Rightarrow> MatchEngine) \<Rightarrow> nat \<Rightarrow> MatchEngine \<Rightarrow> MatchEngine" where
  "run_ticks rest 0 e = e"
| "run_ticks rest (Suc n) e = advance_time (rest n (run_phase_step (run_ticks rest n e)))"

definition clock_view :: "MatchEngine \<Rightarrow> rat \<times> Phase \<times> bool \<times> bool \<times> string option" where
  "clock_view e =
     (time_remaining (match_state e), current_phase (match_state e),
      red_hub_active (match_state e), blue_hub_active (match_state e), auto_winner e)"

text \<open>
  The schedule of claim C4 as a predicate on an engine: while the phase is one of the
  four shifts, the hub of the Auto winner is active exactly in shifts 2 and 4 and the
  other hub is its complement.
\<close>

definition hub_schedule_ok :: "MatchEngine \<Rightarrow> bool" where
  "hub_schedule_ok e =
     (current_phase (match_state e) \<in> set [SHIFT1, SHIFT2, SHIFT3, SHIFT4] \<longrightarrow>
        (hub_active_of (current_auto_winner e) (match_state e)
           \<longleftrightarrow> current_phase (match_state e) \<in> set [SHIFT2, SHIFT4])
      \<and> (hub_active_of (other_alliance (current_auto_winner e)) (match_state e)
           \<longleftrightarrow> \<not> hub_active_of (current_auto_winner e) (match_state e)))"

text \<open>
  The attributes set by \<^verbatim>\<open>MatchEngine.__init__\<close>, for a given generator state and
  list of robots.
\<close>

definition MatchEngine_init :: "rng \<Rightarrow> Robot list \<Rightarrow> MatchEngine" where
  "MatchEngine_init g robots =
     \<lparr> eng_rng = g,
       eng_field = FieldManager_init,
       match_state =
         \<lparr> time_remaining = TOTAL_MATCH_DURATION, current_phase = AUTO,
           red_hub_active = True, blue_hub_active = True,
           red_score = 0, blue_score = 0, red_fuel_scored = 0, blue_fuel_scored = 0,
           red_tower_points = 0, blue_tower_points = 0, red_penalties = 0, blue_penalties = 0 \<rparr>,
       all_robots = robots,
       eng_red_fuel_scored = 0,
       eng_blue_fuel_scored = 0,
       phase_scores = Map.empty,
       red_auto_score = 0,
       blue_auto_score = 0,
       auto_winner = None \<rparr>"

text \<open>
  The Auto winner in the words of the specification: the team with strictly more fuel
  scored during Auto, red on an exact tie.
\<close>

definition spec_auto_winner :: "int \<Rightarrow> int \<Rightarrow> string" where
  "spec_auto_winner red_fuel blue_fuel =
     (if blue_fuel < red_fuel then ''red''
      else if red_fuel < blue_fuel then ''blue''
      else ''red'')"


subsection \<open>Example states\<close>

text \<open>
  An everybot of the red alliance that holds 4 fuel and is shooting at its hub, and an
  engine at match start holding it, whose generator returns 0.1, 0.9, 0.1 and from then
  on 0.9.
\<close>

definition shooting_everybot :: Robot where
  "shooting_everybot =
     (everybot ''red_0'' RED (sconst 0))
       \<lparr> state := (state (everybot ''red_0'' RED (sconst 0)))
                    \<lparr> fuel_held := 4, current_action := SHOOTING, position := HUB \<rparr> \<rparr>"

definition example_engine :: MatchEngine where
  "example_engine =
     MatchEngine_init (1/10 ## 9/10 ## 1/10 ## sconst (9/10)) [shooting_everybot]"


text \<open>
  An everybot about to start a scoring cycle; its generator returns 0 (the deviate of
  the cycle time) and then 0.5 for every later call.  \<open>cycle_step\<close> applies the
  completion handler \<^verbatim>\<open>_on_scoring_action_complete\<close> to the outcome of the previous
  step, as \<^verbatim>\<open>_tick_scoring\<close> does when the timer of a sub-phase runs out, and
  \<open>cycle_timer\<close> reads the sub-phase and the timer that a step has set.  The cycle
  starts on the initial field.  \<open>turret_everybot\<close> is the same robot with a turret and
  4 fuel.
\<close>

definition cycle_everybot :: Robot where
  "cycle_everybot = everybot ''red_0'' RED (0 ## sconst (1/2))"

definition cycle_step :: "py_error + (FieldState \<times> Robot) \<Rightarrow> py_error + (FieldState \<times> Robot)" where
  "cycle_step x = (case x of Inl err \<Rightarrow> Inl err | Inr (fs, r) \<Rightarrow> on_scoring_action_complete fs r)"

definition cycle_timer :: "py_error + (FieldState \<times> Robot) \<Rightarrow> (string \<times> rat) option" where
  "cycle_timer x =
     (case x of Inl err \<Rightarrow> None | Inr (fs, r) \<Rightarrow> Some (cycle_phase r, action_timer (state r)))"

definition cycle_start :: "py_error + (FieldState \<times> Robot)" where
  "cycle_start = Inr (FieldManager_init, start_scoring_cycle cycle_everybot)"

definition turret_everybot :: Robot where
  "turret_everybot =
     (start_scoring_cycle cycle_everybot)
       \<lparr> effective_shooter := SINGLE_TURRET,
         state := (state (start_scoring_cycle cycle_everybot))\<lparr> fuel_held := 4 \<rparr> \<rparr>"

text \<open>
  A robot of the red alliance sent on a push trip (\<^verbatim>\<open>_start_push_cycle\<close>) and one
  tick of \<^verbatim>\<open>_tick_pushing\<close> for it on the field manager of \<^verbatim>\<open>field.py\<close>; the states
  of the five other robots, which with the pusher hold the 20 preloaded fuel
  (4, 4, 2 per alliance); and the configuration of the archetype \<^verbatim>\<open>kitbot_base\<close>
  (1 fuel preloaded).
\<close>

definition pusher_everybot :: Robot where
  "pusher_everybot =
     start_push_cycle
       ((everybot ''red_2'' RED (sconst 0))
          \<lparr> state := (state (everybot ''red_2'' RED (sconst 0)))
                       \<lparr> fuel_held := 2, shift_role := PUSHER \<rparr> \<rparr>)"

definition push_tick :: "FieldState \<times> Robot \<Rightarrow> FieldState \<times> Robot" where
  "push_tick x = (case x of (fs, r) \<Rightarrow> tick_pushing FieldManager_methods fs TICK_INTERVAL r)"

definition other_robot_states :: "RobotState list" where
  "other_robot_states =
     map (\<lambda>(rid, al, fuel). (state (everybot rid al (sconst 0)))\<lparr> fuel_held := fuel \<rparr>)
       [(''red_0'', RED, 4), (''red_1'', RED, 4),
        (''blue_0'', BLUE, 4), (''blue_1'', BLUE, 4), (''blue_2'', BLUE, 2)]"

definition kitbot_base_config :: RobotConfig where
  "kitbot_base_config =
     \<lparr> cfg_archetype = KITBOT_BASE, cfg_shooter_type = SINGLE_FIXED,
       cfg_indexer_type = GRAVITY_FED, cfg_storage_capacity = 15, cfg_intake_rate = 2,
       cfg_shoot_rate = 3, cfg_intake_quality = PUSH_AROUND, cfg_auto_fuel_target = 1 \<rparr>"

definition kitbot_base :: "string \<Rightarrow> Alliance \<Rightarrow> rng \<Rightarrow> Robot" where
  "kitbot_base rid al g = Robot_init rid al kitbot_base_config g 30 (9/2) (3/8)"


subsection \<open>Counts of a well-formed ledger\<close>

text \<open>
  The three pools that robots draw from are not negative and every entry of the transit
  queue carries a positive count.  The initial field is such a state and every method of
  \<^verbatim>\<open>FieldManager\<close> keeps it so (shown below).
\<close>

definition ledger_ok :: "FieldState \<Rightarrow> bool" where
  "ledger_ok s =
     (0 \<le> neutral_fuel_available s \<and> 0 \<le> red_outpost_fuel s \<and> 0 \<le> blue_outpost_fuel s
      \<and> list_all (\<lambda>entry. 0 < snd entry) (transit_queue s))"


section \<open>Ledger operations: intake, push, feed, no-op counts\<close>

lemma ledger_ok_init: "ledger_ok FieldManager_init"
  by (simp add: ledger_ok_def FieldManager_init_def INITIAL_NEUTRAL_FUEL_def
        INITIAL_OUTPOST_FUEL_def)

lemma ledger_ok_pool: "ledger_ok s \<Longrightarrow> 0 \<le> pool_count p s"
  by (cases p) (simp_all add: ledger_ok_def)

lemma process_transit_loop_ok:
  "process_transit_loop t q s pend = (s', pend') \<Longrightarrow>
   list_all (\<lambda>entry. 0 < snd entry) q \<Longrightarrow> list_all (\<lambda>entry. 0 < snd entry) pend \<Longrightarrow>
   0 \<le> neutral_fuel_available s \<Longrightarrow>
     0 \<le> neutral_fuel_available s' \<and> red_outpost_fuel s' = red_outpost_fuel s
     \<and> blue_outpost_fuel s' = blue_outpost_fuel s
     \<and> list_all (\<lambda>entry. 0 < snd entry) pend'"
proof (induction q arbitrary: s pend)
  case Nil
  then show ?case by simp
next
  case (Cons entry q)
  obtain rt c where entry: "entry = (rt, c)" by (cases entry)
  from Cons.prems(2) entry have c: "0 < c" and q: "list_all (\<lambda>entry. 0 < snd entry) q"
    by simp_all
  show ?case
  proof (cases "rt \<le> t")
    case True
    let ?s1 = "s\<lparr> neutral_fuel_available := neutral_fuel_available s + c,
                  fuel_in_transit := fuel_in_transit s - c \<rparr>"
    from True Cons.prems(1) entry have run: "process_transit_loop t q ?s1 pend = (s', pend')"
      by simp
    have "0 \<le> neutral_fuel_available ?s1" using Cons.prems(4) c by simp
    from Cons.IH [OF run q Cons.prems(3) this] show ?thesis by simp
  next
    case False
    from False Cons.prems(1) entry have run:
      "process_transit_loop t q s (pend @ [(rt, c)]) = (s', pend')"
      by simp
    have "list_all (\<lambda>entry. 0 < snd entry) (pend @ [(rt, c)])"
      using Cons.prems(3) c by simp
    from Cons.IH [OF run q this Cons.prems(4)] show ?thesis .
  qed
qed

lemma ledger_ok_field_tick: "ledger_ok s \<Longrightarrow> ledger_ok (field_tick t robots s)"
proof -
  assume ok: "ledger_ok s"
  obtain s' pend' where l: "process_transit_loop t (transit_queue s) s [] = (s', pend')"
    by (cases "process_transit_loop t (transit_queue s) s []")
  have "0 \<le> neutral_fuel_available s' \<and> red_outpost_fuel s' = red_outpost_fuel s
     \<and> blue_outpost_fuel s' = blue_outpost_fuel s
     \<and> list_all (\<lambda>entry. 0 < snd entry) pend'"
    using process_transit_loop_ok [OF l] ok by (simp add: ledger_ok_def)
  then show ?thesis
    using ok
    by (simp add: ledger_ok_def field_tick_def update_congestion_def process_transit_queue_def l
          Let_def)
qed

lemma ledger_ok_operations:
  assumes "ledger_ok s"
  shows "ledger_ok (fuel_shot count s)"
    and "ledger_ok (fuel_scored al_str count now s)"
    and "ledger_ok (fuel_missed count now s)"
    and "ledger_ok (snd (try_intake al z amount s))"
    and "ledger_ok (snd (push_fuel from_zone to_zone amount s))"
    and "ledger_ok (hp_throw al_str now s)"
    and "ledger_ok (snd (hp_feed al_str s))"
    and "ledger_ok (register_climb al_str rid s)"
  using assms
  by (auto simp: ledger_ok_def fuel_shot_def fuel_scored_def fuel_missed_def try_intake_def
        push_fuel_def push_fuel_run_def hp_throw_def hp_feed_def register_climb_def Let_def)


text \<open>
  Claim C10.  For every count that is zero or negative, \<^verbatim>\<open>fuel_shot\<close>,
  \<^verbatim>\<open>fuel_scored\<close> and \<^verbatim>\<open>fuel_missed\<close> return the field state they were given: no
  counter changes and the transit queue gets no new entry.
\<close>

theorem nonpositive_count_is_noop:
  "count \<le> 0 \<Longrightarrow>
     fuel_shot count s = s \<and> fuel_scored al count now s = s \<and> fuel_missed count now s = s
     \<and> transit_queue (fuel_scored al count now s) = transit_queue s
     \<and> transit_queue (fuel_missed count now s) = transit_queue s"
  by (simp add: fuel_shot_def fuel_scored_def fuel_missed_def)

theorem nonpositive_count_is_noop_witness:
  "fuel_shot (- 3) FieldManager_init = FieldManager_init
   \<and> fuel_scored ''red'' 0 12 FieldManager_init = FieldManager_init
   \<and> fuel_missed (- 3) 12 FieldManager_init = FieldManager_init"
  using nonpositive_count_is_noop [of "- 3" FieldManager_init "''red''" 12]
        nonpositive_count_is_noop [of 0 FieldManager_init "''red''" 12]
  by simp

text \<open>
  Claim C9.  \<^verbatim>\<open>hp_feed\<close> returns \<^verbatim>\<open>True\<close> exactly when the selected outpost holds
  at least one fuel.  When the outpost count is zero or less it returns \<^verbatim>\<open>False\<close> and
  the state it was given; otherwise the new state is the old one with that outpost
  count lowered by one and nothing else changed.
\<close>

theorem hp_feed_fail_closed:
  "(fst (hp_feed al s) \<longleftrightarrow> 0 < outpost_fuel al s)
   \<and> (outpost_fuel al s \<le> 0 \<longrightarrow> hp_feed al s = (False, s))
   \<and> (0 < outpost_fuel al s \<and> al = ''red'' \<longrightarrow>
        hp_feed al s = (True, s\<lparr> red_outpost_fuel := red_outpost_fuel s - 1 \<rparr>))
   \<and> (0 < outpost_fuel al s \<and> al \<noteq> ''red'' \<longrightarrow>
        hp_feed al s = (True, s\<lparr> blue_outpost_fuel := blue_outpost_fuel s - 1 \<rparr>))"
  by (simp add: hp_feed_def outpost_fuel_def)

theorem hp_feed_fail_closed_witness:
  "hp_feed ''red'' FieldManager_init
     = (True, FieldManager_init\<lparr> red_outpost_fuel := 9 \<rparr>)
   \<and> hp_feed ''blue'' FieldManager_init
     = (True, FieldManager_init\<lparr> blue_outpost_fuel := 9 \<rparr>)
   \<and> hp_feed ''blue'' (FieldManager_init\<lparr> blue_outpost_fuel := 0 \<rparr>)
     = (False, FieldManager_init\<lparr> blue_outpost_fuel := 0 \<rparr>)"
  using hp_feed_fail_closed [of "''red''" FieldManager_init]
        hp_feed_fail_closed [of "''blue''" FieldManager_init]
        hp_feed_fail_closed [of "''blue''" "FieldManager_init\<lparr> blue_outpost_fuel := 0 \<rparr>"]
  by (simp add: outpost_fuel_def FieldManager_init_def INITIAL_OUTPOST_FUEL_def)

text \<open>
  Claim C2, as stated, at a negative request.  With 20 fuel in the neutral zone the
  request \<open>- 1\<close> satisfies \<^verbatim>\<open>amount <= available\<close>, yet \<^verbatim>\<open>try_intake\<close> returns 0,
  which is neither \<^verbatim>\<open>amount\<close> nor a member of the interval from 0 to \<^verbatim>\<open>amount\<close>: the
  guard \<^verbatim>\<open>if amount <= 0: return 0\<close> answers every non-positive request with 0.
\<close>

theorem try_intake_negative_amount_counterexample:
  "(- 1) \<le> pool_count (intake_pool (AllianceEnum RED) (ZoneEnum NEUTRAL)) FieldManager_init
   \<and> fst (try_intake (AllianceEnum RED) (ZoneEnum NEUTRAL) (- 1) FieldManager_init) = 0
   \<and> fst (try_intake (AllianceEnum RED) (ZoneEnum NEUTRAL) (- 1) FieldManager_init) \<noteq> - 1
   \<and> \<not> (fst (try_intake (AllianceEnum RED) (ZoneEnum NEUTRAL) (- 1) FieldManager_init) \<le> - 1)"
  by (simp add: try_intake_def intake_pool_def FieldManager_init_def INITIAL_NEUTRAL_FUEL_def)

text \<open>
  Claim C2, amended.  A request of zero or less returns 0 and leaves the state as it
  was.  For a positive request on a pool whose count is not negative (as it is in every
  state the ledger reaches, \<open>ledger_ok_pool\<close>), \<^verbatim>\<open>try_intake\<close>
  returns the available count when the request exceeds it and the requested amount
  otherwise; the result lies between 0 and the request; the pool read for the zone is
  lowered by exactly the result and the other two pools keep their counts.
\<close>

theorem try_intake_fail_closed:
  assumes "0 \<le> pool_count (intake_pool al z) s"
  shows "(amount \<le> 0 \<longrightarrow> try_intake al z amount s = (0, s))
   \<and> (0 < amount \<longrightarrow>
        (pool_count (intake_pool al z) s < amount \<longrightarrow>
           fst (try_intake al z amount s) = pool_count (intake_pool al z) s)
      \<and> (amount \<le> pool_count (intake_pool al z) s \<longrightarrow>
           fst (try_intake al z amount s) = amount)
      \<and> 0 \<le> fst (try_intake al z amount s)
      \<and> fst (try_intake al z amount s) \<le> amount
      \<and> pool_count (intake_pool al z) (snd (try_intake al z amount s))
           = pool_count (intake_pool al z) s - fst (try_intake al z amount s)
      \<and> (\<forall>p. p \<noteq> intake_pool al z \<longrightarrow>
             pool_count p (snd (try_intake al z amount s)) = pool_count p s))"
proof (intro conjI impI)
  show "amount \<le> 0 \<Longrightarrow> try_intake al z amount s = (0, s)"
    by (simp add: try_intake_def)
next
  assume pos: "0 < amount"
  show "pool_count (intake_pool al z) s < amount \<Longrightarrow>
          fst (try_intake al z amount s) = pool_count (intake_pool al z) s"
    using pos by (auto simp: try_intake_def intake_pool_def Let_def)
  show "amount \<le> pool_count (intake_pool al z) s \<Longrightarrow>
          fst (try_intake al z amount s) = amount"
    using pos by (auto simp: try_intake_def intake_pool_def Let_def)
  show "0 \<le> fst (try_intake al z amount s)"
    using pos assms by (auto simp: try_intake_def intake_pool_def Let_def split: if_splits)
  show "fst (try_intake al z amount s) \<le> amount"
    using pos by (auto simp: try_intake_def intake_pool_def Let_def)
  show "pool_count (intake_pool al z) (snd (try_intake al z amount s))
           = pool_count (intake_pool al z) s - fst (try_intake al z amount s)"
    using pos by (auto simp: try_intake_def intake_pool_def Let_def)
  show "\<forall>p. p \<noteq> intake_pool al z \<longrightarrow>
             pool_count p (snd (try_intake al z amount s)) = pool_count p s"
  proof (intro allI impI)
    fix p assume "p \<noteq> intake_pool al z"
    then show "pool_count p (snd (try_intake al z amount s)) = pool_count p s"
      using pos by (cases p) (auto simp: try_intake_def intake_pool_def Let_def split: if_splits)
  qed
qed

theorem try_intake_fail_closed_witness:
  "try_intake (AllianceEnum RED) (ZoneEnum NEUTRAL) (- 1) FieldManager_init = (0, FieldManager_init)
   \<and> fst (try_intake (AllianceEnum BLUE) (ZoneEnum OUTPOST) 25 FieldManager_init) = 10
   \<and> blue_outpost_fuel (snd (try_intake (AllianceEnum BLUE) (ZoneEnum OUTPOST) 25 FieldManager_init)) = 0
   \<and> red_outpost_fuel (snd (try_intake (AllianceEnum BLUE) (ZoneEnum OUTPOST) 25 FieldManager_init)) = 10
   \<and> fst (try_intake (AllianceStr ''red'') (ZoneStr ''hub'') 5 FieldManager_init) = 5
   \<and> neutral_fuel_available (snd (try_intake (AllianceStr ''red'') (ZoneStr ''hub'') 5 FieldManager_init)) = 15"
proof -
  have a: "0 \<le> pool_count (intake_pool (AllianceEnum RED) (ZoneEnum NEUTRAL)) FieldManager_init"
    by (simp add: intake_pool_def FieldManager_init_def INITIAL_NEUTRAL_FUEL_def)
  have b: "0 \<le> pool_count (intake_pool (AllianceEnum BLUE) (ZoneEnum OUTPOST)) FieldManager_init"
    by (simp add: intake_pool_def FieldManager_init_def INITIAL_OUTPOST_FUEL_def)
  have c: "0 \<le> pool_count (intake_pool (AllianceStr ''red'') (ZoneStr ''hub'')) FieldManager_init"
    by (simp add: intake_pool_def FieldManager_init_def INITIAL_NEUTRAL_FUEL_def)
  have pb: "intake_pool (AllianceEnum BLUE) (ZoneEnum OUTPOST) = BlueOutpostPool"
    by (simp add: intake_pool_def)
  have pc: "intake_pool (AllianceStr ''red'') (ZoneStr ''hub'') = NeutralPool"
    by (simp add: intake_pool_def)
  show ?thesis
    using try_intake_fail_closed [OF a, of "- 1"]
          try_intake_fail_closed [OF b, of 25]
          try_intake_fail_closed [OF c, of 5]
    by (simp add: pb pc try_intake_def FieldManager_init_def INITIAL_NEUTRAL_FUEL_def
          INITIAL_OUTPOST_FUEL_def)
qed


lemma push_fuel_returns_arrived:
  "push_fuel from_zone to_zone amount s
     = (case push_fuel_run from_zone to_zone amount s of
          (Pushed available actual_moved scattered arrived, ret, s') \<Rightarrow> (arrived, s')
        | (other, ret, s') \<Rightarrow> (0, s'))"
  by (simp add: push_fuel_def push_fuel_run_def Let_def)

lemma push_fuel_example:
  "push_fuel_run ''neutral'' ''alliance'' 7 FieldManager_init
     = (Pushed 20 7 1 6, 6, FieldManager_init)"
  by (simp add: push_fuel_run_def Let_def FieldManager_init_def INITIAL_NEUTRAL_FUEL_def
        INITIAL_OUTPOST_FUEL_def PUSH_SCATTER_RATE_def
        floor_divide_of_int_eq [of 7 5, simplified])


section \<open>Tower occupancy\<close>

lemma register_climb_idem:
  "register_climb al rid (register_climb al rid s) = register_climb al rid s"
  by (simp add: register_climb_def tower_occupants_def Let_def)

lemma tower_occupants_register:
  "tower_occupants al (register_climb al' rid s)
     = (if (al = ''red'') = (al' = ''red'') \<and> rid \<notin> set (tower_occupants al s)
        then tower_occupants al s @ [rid] else tower_occupants al s)"
  by (auto simp: register_climb_def tower_occupants_def Let_def)

lemma guarded_register_bound:
  assumes "length (tower_occupants al s) \<le> 3"
  shows "length (tower_occupants al
           (if can_climb al' rid s then register_climb al' rid s else s)) \<le> 3"
proof (cases "(al = ''red'') = (al' = ''red'')")
  case True
  then have same: "tower_occupants al' s = tower_occupants al s"
    by (auto simp: tower_occupants_def)
  show ?thesis
    using assms True
    by (auto simp: tower_occupants_register can_climb_def MAX_TOWER_OCCUPANTS_def Let_def same)
next
  case False
  then show ?thesis
    using assms by (auto simp: tower_occupants_register)
qed

lemma guarded_sequence_bound:
  "length (tower_occupants al s) \<le> 3 \<Longrightarrow>
   length (tower_occupants al
     (foldl (\<lambda>st (al', rid). if can_climb al' rid st then register_climb al' rid st else st)
        s reqs)) \<le> 3"
proof (induction reqs arbitrary: s)
  case Nil
  then show ?case by simp
next
  case (Cons rq reqs)
  obtain al' rid where rq: "rq = (al', rid)" by (cases rq)
  have "length (tower_occupants al
           (if can_climb al' rid s then register_climb al' rid s else s)) \<le> 3"
    using Cons.prems by (rule guarded_register_bound)
  then show ?case
    using Cons.IH [of "if can_climb al' rid s then register_climb al' rid s else s"]
    by (simp add: rq)
qed

text \<open>
  Claim C7, as stated, at four robots.  \<^verbatim>\<open>register_climb\<close> appends every robot that is
  not yet on the list and never looks at the length: registering four different robots
  of one alliance gives a list of four entries, although \<^verbatim>\<open>can_climb\<close> answers
  \<^verbatim>\<open>False\<close> for the fourth.
\<close>

theorem register_climb_unbounded_counterexample:
  "length (red_tower_occupants
     (register_climb ''red'' ''red_3'' (register_climb ''red'' ''red_2''
       (register_climb ''red'' ''red_1'' (register_climb ''red'' ''red_0'' FieldManager_init)))))
   = 4
   \<and> \<not> can_climb ''red'' ''red_3''
         (register_climb ''red'' ''red_2''
           (register_climb ''red'' ''red_1'' (register_climb ''red'' ''red_0'' FieldManager_init)))"
  by (simp add: register_climb_def can_climb_def tower_occupants_def Let_def
        FieldManager_init_def MAX_TOWER_OCCUPANTS_def)

text \<open>
  Claim C7, amended.  Registering a robot twice gives the same state as registering it
  once, and registering a robot already on the list changes nothing; \<^verbatim>\<open>can_climb\<close>
  holds exactly when the robot is on its alliance's list or the list has fewer than
  \<^verbatim>\<open>MAX_TOWER_OCCUPANTS\<close> entries; \<^verbatim>\<open>register_climb\<close> of a robot not on the list appends
  it whatever the length; and a list of at most three entries stays at most three
  entries long under any sequence of registrations each made only when \<^verbatim>\<open>can_climb\<close>
  allows it.
\<close>

theorem climb_capacity_and_idempotence:
  "register_climb al rid (register_climb al rid s) = register_climb al rid s
   \<and> (can_climb al rid s \<longleftrightarrow>
        rid \<in> set (tower_occupants al s) \<or> int (length (tower_occupants al s)) < MAX_TOWER_OCCUPANTS)
   \<and> (rid \<in> set (tower_occupants al s) \<longrightarrow> register_climb al rid s = s)
   \<and> (rid \<notin> set (tower_occupants al s) \<longrightarrow>
        tower_occupants al (register_climb al rid s) = tower_occupants al s @ [rid])
   \<and> (length (tower_occupants al s) \<le> 3 \<longrightarrow>
        length (tower_occupants al
          (foldl (\<lambda>st (al', r). if can_climb al' r st then register_climb al' r st else st)
             s reqs)) \<le> 3)"
  using guarded_sequence_bound [of al s reqs]
  by (auto simp: register_climb_idem can_climb_def Let_def tower_occupants_register)
     (auto simp: register_climb_def Let_def)

theorem climb_capacity_and_idempotence_witness:
  "register_climb ''red'' ''red_0'' (register_climb ''red'' ''red_0'' FieldManager_init)
     = register_climb ''red'' ''red_0'' FieldManager_init
   \<and> can_climb ''red'' ''red_0'' FieldManager_init
   \<and> tower_occupants ''red'' (register_climb ''red'' ''red_0'' FieldManager_init) = [''red_0'']
   \<and> length (tower_occupants ''red''
        (foldl (\<lambda>st (al', r). if can_climb al' r st then register_climb al' r st else st)
           FieldManager_init
           [(''red'', ''red_0''), (''red'', ''red_1''), (''red'', ''red_2''), (''red'', ''red_3'')]))
       \<le> 3"
  using climb_capacity_and_idempotence [of "''red''" "''red_0''" FieldManager_init
          "[(''red'', ''red_0''), (''red'', ''red_1''), (''red'', ''red_2''), (''red'', ''red_3'')]"]
        climb_capacity_and_idempotence [of "''red''" "''red_0''"
          "register_climb ''red'' ''red_0'' FieldManager_init" "[]"]
  by (simp add: tower_occupants_def FieldManager_init_def can_climb_def MAX_TOWER_OCCUPANTS_def
        register_climb_def Let_def)

section \<open>Auto winner and hub activation\<close>

lemma determine_auto_winner_result:
  "auto_winner (determine_auto_winner e) =
     Some (if eng_blue_fuel_scored e < eng_red_fuel_scored e then ''red''
           else if eng_red_fuel_scored e < eng_blue_fuel_scored e then ''blue''
           else ''red'')"
  by (simp add: determine_auto_winner_def Let_def)

lemma determine_auto_winner_frame:
  "match_state (determine_auto_winner e) = match_state e"
  by (simp add: determine_auto_winner_def Let_def)

lemma update_hub_activation_flags:
  "hub_active_of (current_auto_winner e) (match_state (update_hub_activation p e))
     = (p \<in> set [SHIFT2, SHIFT4])"
  "hub_active_of (other_alliance (current_auto_winner e)) (match_state (update_hub_activation p e))
     = (p \<notin> set [SHIFT2, SHIFT4])"
  "auto_winner (update_hub_activation p e) = auto_winner e"
  "current_phase (match_state (update_hub_activation p e)) = current_phase (match_state e)"
  "time_remaining (match_state (update_hub_activation p e)) = time_remaining (match_state e)"
  by (auto simp: update_hub_activation_def hub_active_of_def other_alliance_def
        current_auto_winner_def Let_def)

lemma on_phase_change_shift:
  assumes "p \<in> set [SHIFT1, SHIFT2, SHIFT3, SHIFT4]"
  shows "on_phase_change old p e = update_hub_activation p e"
  using assms by (auto simp: on_phase_change_def Let_def)

lemma on_phase_change_time:
  "time_remaining (match_state (on_phase_change old p e)) = time_remaining (match_state e)"
  by (auto simp: on_phase_change_def Let_def update_hub_activation_flags determine_auto_winner_frame)

lemma on_phase_change_winner:
  "auto_winner (on_phase_change old p e)
     = (if old = AUTO \<and> p = TRANSITION then auto_winner (determine_auto_winner e)
        else auto_winner e)"
  by (auto simp: on_phase_change_def Let_def update_hub_activation_flags)

lemma run_phase_step_time:
  "time_remaining (match_state (run_phase_step e)) = time_remaining (match_state e)"
  by (auto simp: run_phase_step_def Let_def on_phase_change_time)

lemma run_phase_step_phase:
  "current_phase (match_state (run_phase_step e)) = get_phase (time_remaining (match_state e))"
  by (auto simp: run_phase_step_def Let_def)

lemma run_phase_step_winner:
  "auto_winner (run_phase_step e)
     = (if current_phase (match_state e) = AUTO
           \<and> get_phase (time_remaining (match_state e)) = TRANSITION
        then auto_winner (determine_auto_winner e) else auto_winner e)"
  by (auto simp: run_phase_step_def Let_def on_phase_change_winner)

lemma hub_active_of_phase_update [simp]:
  "hub_active_of w (ms\<lparr> current_phase := p \<rparr>) = hub_active_of w ms"
  by (simp add: hub_active_of_def)

lemma run_phase_step_match_state:
  "match_state (run_phase_step e) =
     (if get_phase (time_remaining (match_state e)) \<noteq> current_phase (match_state e)
      then (match_state (on_phase_change (current_phase (match_state e))
                           (get_phase (time_remaining (match_state e))) e))
             \<lparr> current_phase := get_phase (time_remaining (match_state e)) \<rparr>
      else match_state e)"
  by (simp add: run_phase_step_def Let_def)

lemma run_phase_step_auto_winner:
  "auto_winner (run_phase_step e) =
     (if get_phase (time_remaining (match_state e)) \<noteq> current_phase (match_state e)
      then auto_winner (on_phase_change (current_phase (match_state e))
                          (get_phase (time_remaining (match_state e))) e)
      else auto_winner e)"
  by (simp add: run_phase_step_def Let_def)

lemma run_phase_step_schedule:
  assumes "hub_schedule_ok e"
  shows "hub_schedule_ok (run_phase_step e)"
proof (cases "get_phase (time_remaining (match_state e)) = current_phase (match_state e)")
  case True
  then show ?thesis
    using assms
    by (simp add: hub_schedule_ok_def current_auto_winner_def run_phase_step_match_state
          run_phase_step_auto_winner)
next
  case False
  let ?p = "get_phase (time_remaining (match_state e))"
  show ?thesis
  proof (cases "?p \<in> set [SHIFT1, SHIFT2, SHIFT3, SHIFT4]")
    case True
    have ms: "match_state (run_phase_step e)
                = (match_state (update_hub_activation ?p e))\<lparr> current_phase := ?p \<rparr>"
      using False by (simp add: run_phase_step_match_state on_phase_change_shift [OF True])
    have "auto_winner (run_phase_step e) = auto_winner e"
      using False
      by (simp add: run_phase_step_auto_winner on_phase_change_shift [OF True]
            update_hub_activation_flags)
    then have w: "current_auto_winner (run_phase_step e) = current_auto_winner e"
      by (simp add: current_auto_winner_def)
    show ?thesis
      unfolding hub_schedule_ok_def w ms
      by (simp add: update_hub_activation_flags)
  next
    case notshift: False
    have "current_phase (match_state (run_phase_step e)) = ?p"
      by (rule run_phase_step_phase)
    then show ?thesis
      using notshift by (simp add: hub_schedule_ok_def)
  qed
qed

lemma get_phase_AUTO: "get_phase t = AUTO \<longleftrightarrow> 140 \<le> t"
  by (auto simp: get_phase_def PHASE_BOUNDARIES_def)

lemma get_phase_TRANSITION: "get_phase t = TRANSITION \<longleftrightarrow> 130 \<le> t \<and> t < 140"
  by (auto simp: get_phase_def PHASE_BOUNDARIES_def)

lemma get_phase_shifts:
  "get_phase t = SHIFT1 \<longleftrightarrow> 105 \<le> t \<and> t < 130"
  "get_phase t = SHIFT2 \<longleftrightarrow> 80 \<le> t \<and> t < 105"
  "get_phase t = SHIFT3 \<longleftrightarrow> 55 \<le> t \<and> t < 80"
  "get_phase t = SHIFT4 \<longleftrightarrow> 30 \<le> t \<and> t < 55"
  by (auto simp: get_phase_def PHASE_BOUNDARIES_def)

lemma clock_view_fields:
  assumes "clock_view e' = clock_view e"
  shows "time_remaining (match_state e') = time_remaining (match_state e)"
    and "current_phase (match_state e') = current_phase (match_state e)"
    and "red_hub_active (match_state e') = red_hub_active (match_state e)"
    and "blue_hub_active (match_state e') = blue_hub_active (match_state e)"
    and "auto_winner e' = auto_winner e"
  using assms by (simp_all add: clock_view_def)

lemma hub_schedule_ok_view:
  assumes "clock_view e' = clock_view e"
  shows "hub_schedule_ok e' = hub_schedule_ok e"
  using clock_view_fields [OF assms]
  by (simp add: hub_schedule_ok_def hub_active_of_def current_auto_winner_def)

lemma advance_time_fields:
  "time_remaining (match_state (advance_time e)) = time_remaining (match_state e) - 1/2"
  "current_phase (match_state (advance_time e)) = current_phase (match_state e)"
  "auto_winner (advance_time e) = auto_winner e"
  by (simp_all add: advance_time_def TICK_INTERVAL_def)

lemma hub_schedule_ok_advance: "hub_schedule_ok (advance_time e) = hub_schedule_ok e"
  by (simp add: hub_schedule_ok_def hub_active_of_def current_auto_winner_def advance_time_def)

lemma run_ticks_time:
  assumes frame: "\<And>n e. clock_view (rest n e) = clock_view e"
  shows "time_remaining (match_state (run_ticks rest n e0))
           = time_remaining (match_state e0) - of_nat n / 2"
proof (induction n)
  case 0
  show ?case by simp
next
  case (Suc n)
  have "time_remaining (match_state (run_ticks rest (Suc n) e0))
          = time_remaining (match_state (run_ticks rest n e0)) - 1/2"
    by (simp add: advance_time_fields clock_view_fields(1) [OF frame] run_phase_step_time)
  then show ?case
    using Suc by (simp add: field_simps)
qed

lemma run_ticks_schedule:
  assumes frame: "\<And>n e. clock_view (rest n e) = clock_view e"
      and "hub_schedule_ok e0"
  shows "hub_schedule_ok (run_ticks rest n e0)"
proof (induction n)
  case 0
  show ?case using assms(2) by simp
next
  case (Suc n)
  then show ?case
    by (simp add: hub_schedule_ok_advance hub_schedule_ok_view [OF frame]
          run_phase_step_schedule)
qed

lemma run_ticks_phase:
  assumes frame: "\<And>n e. clock_view (rest n e) = clock_view e"
  shows "current_phase (match_state (run_ticks rest (Suc n) e0))
           = get_phase (time_remaining (match_state e0) - of_nat n / 2)"
  by (simp add: advance_time_fields clock_view_fields(2) [OF frame] run_phase_step_phase
        run_ticks_time [OF frame])

lemma run_ticks_winner_step:
  assumes frame: "\<And>n e. clock_view (rest n e) = clock_view e"
  shows "auto_winner (run_ticks rest (Suc n) e0) = auto_winner (run_phase_step (run_ticks rest n e0))"
  by (simp add: advance_time_fields clock_view_fields(5) [OF frame])

lemma run_ticks_winner_kept:
  assumes frame: "\<And>n e. clock_view (rest n e) = clock_view e"
      and t0: "time_remaining (match_state e0) = 160"
  shows "41 \<le> n \<Longrightarrow>
         auto_winner (run_phase_step (run_ticks rest n e0))
           = auto_winner (run_phase_step (run_ticks rest 41 e0))"
proof (induction n)
  case 0
  then show ?case by simp
next
  case (Suc n)
  show ?case
  proof (cases "Suc n = 41")
    case True
    then show ?thesis by simp
  next
    case False
    with Suc.prems have n: "41 \<le> n" by simp
    have ph: "current_phase (match_state (run_ticks rest (Suc n) e0)) \<noteq> AUTO"
      using n unfolding run_ticks_phase [OF frame] by (simp add: t0 get_phase_AUTO)
    have "auto_winner (run_phase_step (run_ticks rest (Suc n) e0))
            = auto_winner (run_ticks rest (Suc n) e0)"
      using ph by (simp add: run_phase_step_winner)
    also have "\<dots> = auto_winner (run_phase_step (run_ticks rest n e0))"
      by (rule run_ticks_winner_step [OF frame])
    finally show ?thesis
      using Suc.IH [OF n] by simp
  qed
qed

lemma run_ticks_winner_determined:
  assumes frame: "\<And>n e. clock_view (rest n e) = clock_view e"
      and t0: "time_remaining (match_state e0) = 160"
  shows "auto_winner (run_phase_step (run_ticks rest 41 e0))
           = auto_winner (determine_auto_winner (run_ticks rest 41 e0))"
proof -
  have "run_ticks rest 41 e0 = run_ticks rest (Suc 40) e0"
    by (simp del: run_ticks.simps)
  then have ph: "current_phase (match_state (run_ticks rest 41 e0)) = AUTO"
    using run_ticks_phase [OF frame, where n = 40 and ?e0.0 = e0] by (simp add: t0 get_phase_AUTO del: run_ticks.simps)
  have tm: "time_remaining (match_state (run_ticks rest 41 e0)) = 279/2"
    using run_ticks_time [OF frame, where n = 41 and ?e0.0 = e0] by (simp add: t0)
  show ?thesis
    by (simp add: run_phase_step_winner ph tm get_phase_TRANSITION)
qed

text \<open>
  Claim C4.  \<^verbatim>\<open>_determine_auto_winner\<close> names the team with strictly more fuel scored,
  red on a tie.  In a run from the initial clock of 160 seconds and phase Auto, whatever
  the other steps of the loop do: the phase in iteration \<open>n\<close> is the phase of
  \<open>160 - n / 2\<close> seconds; the winner is determined in iteration 41, the first one in
  Transition, from the fuel scored until then, and stays the same in every later
  iteration; and in every iteration whose phase is one of the four shifts, the winner's
  hub is active exactly in shifts 2 and 4 and the other team's hub is active exactly
  when the winner's is not.
\<close>

theorem hub_activity_alternation:
  assumes frame: "\<And>n e. clock_view (rest n e) = clock_view e"
      and t0: "time_remaining (match_state e0) = TOTAL_MATCH_DURATION"
      and p0: "current_phase (match_state e0) = AUTO"
  shows "auto_winner (determine_auto_winner e)
           = Some (spec_auto_winner (eng_red_fuel_scored e) (eng_blue_fuel_scored e))
    \<and> current_phase (match_state (run_phase_step (run_ticks rest n e0)))
           = get_phase (TOTAL_MATCH_DURATION - of_nat n * TICK_INTERVAL)
    \<and> (41 \<le> n \<longrightarrow>
          auto_winner (run_phase_step (run_ticks rest n e0))
            = Some (spec_auto_winner (eng_red_fuel_scored (run_ticks rest 41 e0))
                                   (eng_blue_fuel_scored (run_ticks rest 41 e0))))
    \<and> (current_phase (match_state (run_phase_step (run_ticks rest n e0)))
            \<in> set [SHIFT1, SHIFT2, SHIFT3, SHIFT4] \<longrightarrow>
          (hub_active_of (spec_auto_winner (eng_red_fuel_scored (run_ticks rest 41 e0))
                                           (eng_blue_fuel_scored (run_ticks rest 41 e0)))
               (match_state (run_phase_step (run_ticks rest n e0)))
             \<longleftrightarrow> current_phase (match_state (run_phase_step (run_ticks rest n e0)))
                   \<in> set [SHIFT2, SHIFT4])
        \<and> (hub_active_of (other_alliance
                             (spec_auto_winner (eng_red_fuel_scored (run_ticks rest 41 e0))
                                               (eng_blue_fuel_scored (run_ticks rest 41 e0))))
               (match_state (run_phase_step (run_ticks rest n e0)))
             \<longleftrightarrow> \<not> hub_active_of
                     (spec_auto_winner (eng_red_fuel_scored (run_ticks rest 41 e0))
                                       (eng_blue_fuel_scored (run_ticks rest 41 e0)))
                     (match_state (run_phase_step (run_ticks rest n e0)))))"
proof -
  let ?tick = "run_phase_step (run_ticks rest n e0)"
  let ?w = "spec_auto_winner (eng_red_fuel_scored (run_ticks rest 41 e0))
                             (eng_blue_fuel_scored (run_ticks rest 41 e0))"
  have t160: "time_remaining (match_state e0) = 160"
    using t0 by (simp add: TOTAL_MATCH_DURATION_def)
  have det: "\<And>x. auto_winner (determine_auto_winner x)
                    = Some (spec_auto_winner (eng_red_fuel_scored x) (eng_blue_fuel_scored x))"
    by (simp add: determine_auto_winner_result spec_auto_winner_def)
  have ph: "current_phase (match_state ?tick)
              = get_phase (TOTAL_MATCH_DURATION - of_nat n * TICK_INTERVAL)"
    by (simp add: run_phase_step_phase run_ticks_time [OF frame] t160
          TOTAL_MATCH_DURATION_def TICK_INTERVAL_def)
  have win: "41 \<le> n \<Longrightarrow> auto_winner ?tick = Some ?w"
    using run_ticks_winner_kept [OF frame t160, of n]
          run_ticks_winner_determined [OF frame t160]
    by (simp add: det)
  have ok0: "hub_schedule_ok e0"
    by (simp add: hub_schedule_ok_def p0)
  have ok: "hub_schedule_ok ?tick"
    by (rule run_phase_step_schedule) (rule run_ticks_schedule [OF frame ok0])
  have late: "41 \<le> n"
    if "current_phase (match_state ?tick) \<in> set [SHIFT1, SHIFT2, SHIFT3, SHIFT4]"
  proof -
    have "TOTAL_MATCH_DURATION - of_nat n * TICK_INTERVAL < 130"
      using that unfolding ph by (auto simp: get_phase_shifts)
    then have "(60::rat) < of_nat n"
      by (simp add: TOTAL_MATCH_DURATION_def TICK_INTERVAL_def)
    then have "60 < n"
      by (metis of_nat_less_iff of_nat_numeral)
    then show ?thesis by simp
  qed
  have sched: "(hub_active_of ?w (match_state ?tick)
                  \<longleftrightarrow> current_phase (match_state ?tick) \<in> set [SHIFT2, SHIFT4])
             \<and> (hub_active_of (other_alliance ?w) (match_state ?tick)
                  \<longleftrightarrow> \<not> hub_active_of ?w (match_state ?tick))"
    if sh: "current_phase (match_state ?tick) \<in> set [SHIFT1, SHIFT2, SHIFT3, SHIFT4]"
  proof -
    have cw: "current_auto_winner ?tick = ?w"
      using win [OF late [OF sh]] by (simp add: current_auto_winner_def)
    from ok have "current_phase (match_state ?tick) \<in> set [SHIFT1, SHIFT2, SHIFT3, SHIFT4] \<longrightarrow>
        (hub_active_of (current_auto_winner ?tick) (match_state ?tick)
           \<longleftrightarrow> current_phase (match_state ?tick) \<in> set [SHIFT2, SHIFT4])
      \<and> (hub_active_of (other_alliance (current_auto_winner ?tick)) (match_state ?tick)
           \<longleftrightarrow> \<not> hub_active_of (current_auto_winner ?tick) (match_state ?tick))"
      unfolding hub_schedule_ok_def .
    with sh show ?thesis
      unfolding cw by blast
  qed
  show ?thesis
    using det ph win sched by blast
qed

lemma idle_rest_scores:
  "eng_red_fuel_scored (run_ticks (\<lambda>n e. e) k e0) = eng_red_fuel_scored e0
   \<and> eng_blue_fuel_scored (run_ticks (\<lambda>n e. e) k e0) = eng_blue_fuel_scored e0"
proof (induction k)
  case 0
  show ?case by simp
next
  case (Suc k)
  have "\<And>x. eng_red_fuel_scored (run_phase_step x) = eng_red_fuel_scored x
           \<and> eng_blue_fuel_scored (run_phase_step x) = eng_blue_fuel_scored x"
    by (simp add: run_phase_step_def on_phase_change_def determine_auto_winner_def
          update_hub_activation_def Let_def)
  then show ?case
    using Suc by (simp add: advance_time_def)
qed

theorem hub_activity_alternation_witness:
  "current_phase (match_state (run_phase_step
       (run_ticks (\<lambda>n e. e) 61 (MatchEngine_init (sconst 0) [])))) = SHIFT1
   \<and> \<not> red_hub_active (match_state (run_phase_step
       (run_ticks (\<lambda>n e. e) 61 (MatchEngine_init (sconst 0) []))))
   \<and> blue_hub_active (match_state (run_phase_step
       (run_ticks (\<lambda>n e. e) 61 (MatchEngine_init (sconst 0) []))))
   \<and> current_phase (match_state (run_phase_step
       (run_ticks (\<lambda>n e. e) 111 (MatchEngine_init (sconst 0) [])))) = SHIFT2
   \<and> red_hub_active (match_state (run_phase_step
       (run_ticks (\<lambda>n e. e) 111 (MatchEngine_init (sconst 0) []))))
   \<and> \<not> blue_hub_active (match_state (run_phase_step
       (run_ticks (\<lambda>n e. e) 111 (MatchEngine_init (sconst 0) []))))"
proof -
  let ?e0 = "MatchEngine_init (sconst 0) []"
  have frame: "\<And>n e. clock_view ((\<lambda>n e. e) n e) = clock_view e"
    by simp
  have t0: "time_remaining (match_state ?e0) = TOTAL_MATCH_DURATION"
    by (simp add: MatchEngine_init_def)
  have p0: "current_phase (match_state ?e0) = AUTO"
    by (simp add: MatchEngine_init_def)
  have w: "spec_auto_winner (eng_red_fuel_scored (run_ticks (\<lambda>n e. e) 41 ?e0))
                            (eng_blue_fuel_scored (run_ticks (\<lambda>n e. e) 41 ?e0)) = ''red''"
    by (simp only: idle_rest_scores) (simp add: MatchEngine_init_def spec_auto_winner_def)
  have p61: "get_phase (TOTAL_MATCH_DURATION - of_nat 61 * TICK_INTERVAL) = SHIFT1"
    by (simp add: get_phase_shifts TOTAL_MATCH_DURATION_def TICK_INTERVAL_def)
  have p111: "get_phase (TOTAL_MATCH_DURATION - of_nat 111 * TICK_INTERVAL) = SHIFT2"
    by (simp add: get_phase_shifts TOTAL_MATCH_DURATION_def TICK_INTERVAL_def)
  show ?thesis
    using hub_activity_alternation [of "\<lambda>n e. e" ?e0 ?e0 61, OF frame t0 p0]
          hub_activity_alternation [of "\<lambda>n e. e" ?e0 ?e0 111, OF frame t0 p0]
    unfolding w p61 p111
    by (simp add: hub_active_of_def other_alliance_def)
qed

section \<open>Shot resolution\<close>

lemma fuel_shot_one_funpow:
  "(fuel_shot 1 ^^ k) fs = fs\<lparr> fuel_in_flight := fuel_in_flight fs + int k \<rparr>"
  by (induction k arbitrary: fs) (simp_all add: fuel_shot_def funpow_swap1)




lemma resolve_shooting_robot_skips:
  "current_action (state r) \<notin> set [SHOOTING, DUMPING] \<or> fuel_held (state r) \<le> 0
     \<or> get_shoot_rate r \<le> 0
   \<Longrightarrow> resolve_shooting_robot elapsed r e = (r, e)"
  by (auto simp: resolve_shooting_robot_def Let_def)



section \<open>Timing of the scoring cycle\<close>

lemmas cycle_eval_defs =
  cycle_start_def cycle_timer_def cycle_step_def start_scoring_cycle_def
  start_drive_to_fuel_def on_scoring_action_complete_def begin_intake_def finish_intake_def
  begin_drive_to_hub_def begin_align_def begin_shooting_def align_time_for_shooter_def
  get_effective_intake_quality_def
  rng_gauss_def rng_uniform_def rng_random_def cycle_everybot_def everybot_def
  Robot_init_def everybot_config_def Let_def eval_nat_numeral try_intake_def
  FieldManager_init_def INITIAL_NEUTRAL_FUEL_def TICK_INTERVAL_def FIXED_ALIGN_TIME_def
  INDEXER_JAM_RATES_def INDEXER_RATES_def

lemma cycle_trace_eval:
  "cycle_total_time (start_scoring_cycle cycle_everybot) = Some (37/2)"
  "cycle_timer cycle_start = Some (''drive_to_fuel'', 37/8)"
  "cycle_timer (cycle_step cycle_start) = Some (''intaking'', 5/2)"
  "cycle_timer (cycle_step (cycle_step cycle_start)) = Some (''drive_to_hub'', 37/10)"
  "cycle_timer (cycle_step (cycle_step (cycle_step cycle_start))) = Some (''aligning'', 3/2)"
  "cycle_timer (cycle_step (cycle_step (cycle_step (cycle_step cycle_start))))
     = Some (''shooting'', 5/3)"
  by (simp_all add: cycle_eval_defs)

text \<open>
  Claim C8, as stated, on an everybot whose drawn cycle time is the mean, 18.5 s.  The
  drive to the fuel takes 25% of it (4.625 s) and the drive to the hub 20% (3.7 s), but
  the intake of 10 fuel takes 2.5 s, the alignment 1.5 s and the shooting 5/3 s, where
  20%, 15% and 20% of the total would be 3.7 s, 2.775 s and 3.7 s; the five sub-phases
  do not add up to the total.
\<close>

theorem cycle_fractions_counterexample:
  "cycle_total_time (start_scoring_cycle cycle_everybot) = Some (37/2)
   \<and> cycle_timer cycle_start = Some (''drive_to_fuel'', 37/8)
   \<and> cycle_timer (cycle_step cycle_start) = Some (''intaking'', 5/2)
   \<and> cycle_timer (cycle_step (cycle_step cycle_start)) = Some (''drive_to_hub'', 37/10)
   \<and> cycle_timer (cycle_step (cycle_step (cycle_step cycle_start))) = Some (''aligning'', 3/2)
   \<and> cycle_timer (cycle_step (cycle_step (cycle_step (cycle_step cycle_start))))
        = Some (''shooting'', 5/3)
   \<and> (5/2 :: rat) \<noteq> (20/100) * (37/2)
   \<and> (3/2 :: rat) \<noteq> (15/100) * (37/2)
   \<and> (5/3 :: rat) \<noteq> (20/100) * (37/2)
   \<and> (37/8 + 5/2 + 37/10 + 3/2 + 5/3 :: rat) \<noteq> 37/2"
  by (simp add: cycle_trace_eval)

text \<open>
  Claim C8, amended.  A scoring cycle starts by drawing its total from the normal
  distribution with the robot's cycle-time mean and deviation and raising it to half the
  mean if it is lower; the drive to the fuel lasts 25% of the total and the drive to the
  hub 20% of it.  The other three sub-phases do not depend on the total: the intake
  lasts the fuel picked up divided by the effective intake rate, at least one tick; the
  alignment lasts \<^verbatim>\<open>FIXED_ALIGN_TIME\<close>, and a robot whose shooter needs no alignment
  goes straight to shooting; the shooting lasts the fuel held divided by the shoot rate.
\<close>

theorem scoring_cycle_timing:
  "(cycle_total_time (start_scoring_cycle r)
       = Some (max (cycle_time_mean r * (1/2))
                   (cycle_time_mean r + shd (rng r) * cycle_time_stddev r))
    \<and> (\<forall>t. cycle_total_time (start_scoring_cycle r) = Some t \<longrightarrow>
          cycle_time_mean r / 2 \<le> t
          \<and> cycle_phase (start_scoring_cycle r) = ''drive_to_fuel''
          \<and> action_timer (state (start_scoring_cycle r)) = (25/100) * t))
   \<and> (\<forall>t. cycle_total_time r = Some t \<longrightarrow>
          (\<exists>r'. begin_drive_to_hub r = Inr r' \<and> cycle_phase r' = ''drive_to_hub''
                \<and> action_timer (state r') = (20/100) * t))
   \<and> (get_effective_intake_quality r \<noteq> NO_GROUND_PICKUP
        \<and> fuel_held (state r) < storage_capacity (state r) \<longrightarrow>
          (\<exists>fs' r'. begin_intake fs r = Inr (fs', r') \<and> cycle_phase r' = ''intaking''
             \<and> action_timer (state r')
                 = max (if 0 < (if rt_intake_status (runtime r) = DEGRADED
                                 then intake_rate r * DEGRADED_INTAKE_SPEED_MULT
                                 else intake_rate r)
                           \<and> 0 < fuel_held (state r') - fuel_held (state r)
                        then of_int (fuel_held (state r') - fuel_held (state r))
                               / (if rt_intake_status (runtime r) = DEGRADED
                                  then intake_rate r * DEGRADED_INTAKE_SPEED_MULT
                                  else intake_rate r)
                        else TICK_INTERVAL)
                       TICK_INTERVAL))
   \<and> (0 < align_time_for_shooter (effective_shooter r) (turret_status (runtime r)) \<longrightarrow>
          cycle_phase (begin_align r) = ''aligning''
          \<and> action_timer (state (begin_align r)) = FIXED_ALIGN_TIME)
   \<and> (\<not> 0 < align_time_for_shooter (effective_shooter r) (turret_status (runtime r)) \<longrightarrow>
          begin_align r = begin_shooting r)
   \<and> (current_action (state (begin_shooting r)) = SHOOTING \<longrightarrow>
          cycle_phase (begin_shooting r) = ''shooting''
          \<and> action_timer (state (begin_shooting r))
               = of_int (fuel_held (state r))
                   / (if rt_shooter_status (runtime r) = DEGRADED
                      then shoot_rate r * (67/100) else shoot_rate r))"
proof (intro conjI allI impI)
  show "cycle_total_time (start_scoring_cycle r)
       = Some (max (cycle_time_mean r * (1/2))
                   (cycle_time_mean r + shd (rng r) * cycle_time_stddev r))"
    by (simp add: start_scoring_cycle_def start_drive_to_fuel_def rng_gauss_def Let_def)
next
  fix t assume "cycle_total_time (start_scoring_cycle r) = Some t"
  then have t: "t = max (cycle_time_mean r * (1/2))
                        (cycle_time_mean r + shd (rng r) * cycle_time_stddev r)"
    by (simp add: start_scoring_cycle_def start_drive_to_fuel_def rng_gauss_def Let_def)
  show "cycle_time_mean r / 2 \<le> t"
    unfolding t by simp
  show "cycle_phase (start_scoring_cycle r) = ''drive_to_fuel''"
    by (simp add: start_scoring_cycle_def start_drive_to_fuel_def rng_gauss_def Let_def)
  show "action_timer (state (start_scoring_cycle r)) = (25/100) * t"
    unfolding t
    by (simp add: start_scoring_cycle_def start_drive_to_fuel_def rng_gauss_def Let_def)
next
  fix t assume "cycle_total_time r = Some t"
  then show "\<exists>r'. begin_drive_to_hub r = Inr r' \<and> cycle_phase r' = ''drive_to_hub''
                \<and> action_timer (state r') = (20/100) * t"
    by (simp add: begin_drive_to_hub_def Let_def)
next
  assume a: "get_effective_intake_quality r \<noteq> NO_GROUND_PICKUP
        \<and> fuel_held (state r) < storage_capacity (state r)"
  obtain lo hi where sr: "success_range (get_effective_intake_quality r) = (lo, hi)"
    by (cases "success_range (get_effective_intake_quality r)")
  obtain picked g fs1 where il:
    "intake_loop (nat (storage_capacity (state r) - fuel_held (state r))) (robot_alliance r)
       (position (state r)) (rt_intake_status (runtime r) = DEGRADED) lo hi (0, rng r, fs)
     = (picked, g, fs1)"
    by (cases "intake_loop (nat (storage_capacity (state r) - fuel_held (state r)))
                 (robot_alliance r) (position (state r))
                 (rt_intake_status (runtime r) = DEGRADED) lo hi (0, rng r, fs)")
  show "\<exists>fs' r'. begin_intake fs r = Inr (fs', r') \<and> cycle_phase r' = ''intaking''
             \<and> action_timer (state r')
                 = max (if 0 < (if rt_intake_status (runtime r) = DEGRADED
                                 then intake_rate r * DEGRADED_INTAKE_SPEED_MULT
                                 else intake_rate r)
                           \<and> 0 < fuel_held (state r') - fuel_held (state r)
                        then of_int (fuel_held (state r') - fuel_held (state r))
                               / (if rt_intake_status (runtime r) = DEGRADED
                                  then intake_rate r * DEGRADED_INTAKE_SPEED_MULT
                                  else intake_rate r)
                        else TICK_INTERVAL)
                       TICK_INTERVAL"
    using a by (simp add: begin_intake_def Let_def sr il)
next
  assume "0 < align_time_for_shooter (effective_shooter r) (turret_status (runtime r))"
  then show "cycle_phase (begin_align r) = ''aligning''"
    and "action_timer (state (begin_align r)) = FIXED_ALIGN_TIME"
    by (auto simp: begin_align_def Let_def align_time_for_shooter_def TURRET_ALIGN_TIME_def
          split: if_splits)
next
  assume "\<not> 0 < align_time_for_shooter (effective_shooter r) (turret_status (runtime r))"
  then show "begin_align r = begin_shooting r"
    by (simp add: begin_align_def Let_def)
next
  assume sh: "current_action (state (begin_shooting r)) = SHOOTING"
  obtain u g where rr: "rng_random (rng r) = (u, g)"
    by (cases "rng_random (rng r)")
  from sh show "cycle_phase (begin_shooting r) = ''shooting''"
    by (auto simp: begin_shooting_def Let_def rr split: if_splits)
  from sh show "action_timer (state (begin_shooting r))
               = of_int (fuel_held (state r))
                   / (if rt_shooter_status (runtime r) = DEGRADED
                      then shoot_rate r * (67/100) else shoot_rate r)"
    by (auto simp: begin_shooting_def Let_def rr split: if_splits)
qed

lemma cycle_everybot_fields:
  "cycle_time_mean cycle_everybot = 37/2"
  "cycle_time_stddev cycle_everybot = 111/40"
  "shd (rng cycle_everybot) = 0"
  by (simp_all add: cycle_everybot_def everybot_def Robot_init_def)

lemma cycle_started_fields:
  "get_effective_intake_quality (start_scoring_cycle cycle_everybot) \<noteq> NO_GROUND_PICKUP"
  "fuel_held (state (start_scoring_cycle cycle_everybot))
     < storage_capacity (state (start_scoring_cycle cycle_everybot))"
  "0 < align_time_for_shooter (effective_shooter (start_scoring_cycle cycle_everybot))
         (turret_status (runtime (start_scoring_cycle cycle_everybot)))"
  by (simp_all add: cycle_eval_defs)

lemma turret_everybot_fields:
  "\<not> 0 < align_time_for_shooter (effective_shooter turret_everybot)
           (turret_status (runtime turret_everybot))"
  "current_action (state (begin_shooting turret_everybot)) = SHOOTING"
  "fuel_held (state turret_everybot) = 4"
  "rt_shooter_status (runtime turret_everybot) \<noteq> DEGRADED"
  "shoot_rate turret_everybot = 6"
  by (simp_all add: cycle_eval_defs turret_everybot_def TURRET_ALIGN_TIME_def)

theorem scoring_cycle_timing_witness:
  "cycle_total_time (start_scoring_cycle cycle_everybot) = Some (37/2)
   \<and> action_timer (state (start_scoring_cycle cycle_everybot)) = 37/8
   \<and> (\<exists>r'. begin_drive_to_hub (start_scoring_cycle cycle_everybot) = Inr r'
             \<and> action_timer (state r') = 37/10)
   \<and> (\<exists>fs' r'. begin_intake FieldManager_init (start_scoring_cycle cycle_everybot) = Inr (fs', r')
             \<and> cycle_phase r' = ''intaking'')
   \<and> action_timer (state (begin_align (start_scoring_cycle cycle_everybot))) = 3/2
   \<and> begin_align turret_everybot = begin_shooting turret_everybot
   \<and> action_timer (state (begin_shooting turret_everybot)) = 2/3"
proof -
  let ?r1 = "start_scoring_cycle cycle_everybot"
  note T0 = scoring_cycle_timing [of cycle_everybot FieldManager_init]
  note T1 = scoring_cycle_timing [of ?r1 FieldManager_init]
  note T2 = scoring_cycle_timing [of turret_everybot FieldManager_init]
  have tot: "cycle_total_time ?r1 = Some (37/2)"
    using T0 [THEN conjunct1, THEN conjunct1] by (simp add: cycle_everybot_fields)
  have a: "action_timer (state ?r1) = 37/8"
    using T0 [THEN conjunct1, THEN conjunct2, rule_format, OF tot] by simp
  have b: "\<exists>r'. begin_drive_to_hub ?r1 = Inr r' \<and> action_timer (state r') = 37/10"
    using T1 [THEN conjunct2, THEN conjunct1, rule_format, OF tot] by auto
  have c: "\<exists>fs' r'. begin_intake FieldManager_init ?r1 = Inr (fs', r')
             \<and> cycle_phase r' = ''intaking''"
    using T1 [THEN conjunct2, THEN conjunct2, THEN conjunct1, rule_format,
              OF conjI [OF cycle_started_fields(1) cycle_started_fields(2)]]
    by blast
  have d: "action_timer (state (begin_align ?r1)) = 3/2"
    using T1 [THEN conjunct2, THEN conjunct2, THEN conjunct2, THEN conjunct1, rule_format,
              OF cycle_started_fields(3)]
    by (simp add: FIXED_ALIGN_TIME_def)
  have e: "begin_align turret_everybot = begin_shooting turret_everybot"
    using T2 [THEN conjunct2, THEN conjunct2, THEN conjunct2, THEN conjunct2, THEN conjunct1,
              rule_format, OF turret_everybot_fields(1)] .
  have f: "action_timer (state (begin_shooting turret_everybot)) = 2/3"
    using T2 [THEN conjunct2, THEN conjunct2, THEN conjunct2, THEN conjunct2, THEN conjunct2,
              rule_format, OF turret_everybot_fields(2)]
    by (simp add: turret_everybot_fields)
  show ?thesis
    using tot a b c d e f by blast
qed


section \<open>Fuel conservation\<close>

text \<open>
  Ticking the field, scoring, missing, a human throw and a push between zones leave the
  total of \<^verbatim>\<open>total_fuel_check\<close> as it was.
\<close>

lemma process_transit_loop_total:
  "process_transit_loop t q s pend = (s', pend') \<Longrightarrow>
     neutral_fuel_available s' + fuel_in_transit s'
       = neutral_fuel_available s + fuel_in_transit s
     \<and> red_outpost_fuel s' = red_outpost_fuel s
     \<and> blue_outpost_fuel s' = blue_outpost_fuel s
     \<and> fuel_in_flight s' = fuel_in_flight s"
proof (induction q arbitrary: s pend)
  case Nil
  then show ?case by simp
next
  case (Cons entry q)
  obtain rt c where entry: "entry = (rt, c)" by (cases entry)
  show ?case
  proof (cases "rt \<le> t")
    case True
    with Cons.prems entry have
      "process_transit_loop t q
         (s\<lparr> neutral_fuel_available := neutral_fuel_available s + c,
             fuel_in_transit := fuel_in_transit s - c \<rparr>) pend = (s', pend')"
      by simp
    from Cons.IH [OF this] show ?thesis by simp
  next
    case False
    with Cons.prems entry have
      "process_transit_loop t q s (pend @ [(rt, c)]) = (s', pend')"
      by simp
    from Cons.IH [OF this] show ?thesis .
  qed
qed

lemma field_tick_total:
  "total_fuel_check (field_tick t rs s) robots = total_fuel_check s robots"
proof -
  obtain s' pend' where l: "process_transit_loop t (transit_queue s) s [] = (s', pend')"
    by (cases "process_transit_loop t (transit_queue s) s []")
  from process_transit_loop_total [OF l] show ?thesis
    by (simp add: field_tick_def update_congestion_def process_transit_queue_def l
          total_fuel_check_def Let_def)
qed

lemma ledger_moves_total:
  "0 < count \<Longrightarrow>
     total_fuel_check (fuel_scored al count now s) robots = total_fuel_check s robots"
  "0 < count \<Longrightarrow>
     total_fuel_check (fuel_missed count now s) robots = total_fuel_check s robots"
  "total_fuel_check (hp_throw al now s) robots = total_fuel_check s robots"
  "total_fuel_check (snd (push_fuel from_zone to_zone amount s)) robots
     = (if 0 < amount \<and> (from_zone = ''neutral'' \<or> from_zone = ''outpost'')
           \<and> neutral_fuel_available s < 0
        then total_fuel_check s robots - neutral_fuel_available s
        else total_fuel_check s robots)"
  by (auto simp: fuel_scored_def fuel_missed_def hp_throw_def push_fuel_def push_fuel_run_def
        total_fuel_check_def Let_def)

text \<open>
  A completed push trip draws up to \<^verbatim>\<open>PUSH_FUEL_PER_TRIP\<close> fuel from the neutral pool
  with \<^verbatim>\<open>try_intake\<close> and gives none of it back: the calls that would return the
  scattered fuel and deliver the rest are guarded by \<^verbatim>\<open>hasattr\<close> on two methods that
  \<^verbatim>\<open>FieldManager\<close> does not define.  The total drops by what was drawn, for every
  field state and every robot.
\<close>

lemma complete_push_trip_total:
  assumes "0 \<le> neutral_fuel_available fs"
  shows "total_fuel_check (fst (complete_push_trip FieldManager_methods fs r))
           (pre @ state (snd (complete_push_trip FieldManager_methods fs r)) # post)
         = total_fuel_check fs (pre @ state r # post)
             - min PUSH_FUEL_PER_TRIP (neutral_fuel_available fs)
             - fuel_being_pushed (state r)"
  using assms
  by (auto simp: complete_push_trip_def FieldManager_methods_def try_intake_def
        total_fuel_check_def Let_def PUSH_FUEL_PER_TRIP_def)

lemma push_ticks_13:
  "(push_tick ^^ 13) (FieldManager_init, pusher_everybot)
     = (FieldManager_init,
        pusher_everybot\<lparr> state := (state pusher_everybot)\<lparr> action_timer := 1/2 \<rparr> \<rparr>)"
  by (simp add: eval_nat_numeral push_tick_def tick_pushing_def pusher_everybot_def
        start_push_cycle_def everybot_def Robot_init_def PUSH_TRIP_TIME_def TICK_INTERVAL_def
        Let_def)

text \<open>
  Claim C1 fails on the code.  With 20 fuel in the neutral zone, 10 at each outpost and
  20 in the robots the total is 60 and stays 60 for the first 13 ticks of a push trip;
  the 14th tick completes the trip and leaves a total of 55, so
  \<^verbatim>\<open>assert_conservation\<close> raises from then on.
\<close>

theorem push_trip_breaks_conservation:
  "assert_conservation FieldManager_init (state pusher_everybot # other_robot_states)
   \<and> assert_conservation (fst ((push_tick ^^ 13) (FieldManager_init, pusher_everybot)))
        (state (snd ((push_tick ^^ 13) (FieldManager_init, pusher_everybot))) # other_robot_states)
   \<and> \<not> assert_conservation (fst ((push_tick ^^ 14) (FieldManager_init, pusher_everybot)))
        (state (snd ((push_tick ^^ 14) (FieldManager_init, pusher_everybot))) # other_robot_states)
   \<and> total_fuel_check (fst ((push_tick ^^ 14) (FieldManager_init, pusher_everybot)))
        (state (snd ((push_tick ^^ 14) (FieldManager_init, pusher_everybot))) # other_robot_states)
       = 55"
proof -
  have s14: "(push_tick ^^ 14) x = push_tick ((push_tick ^^ 13) x)" for x
    by (simp add: eval_nat_numeral)
  show ?thesis
    unfolding s14 push_ticks_13
    by (simp add: assert_conservation_def total_fuel_check_def other_robot_states_def
          push_tick_def tick_pushing_def complete_push_trip_def FieldManager_methods_def
          try_intake_def pusher_everybot_def start_push_cycle_def everybot_def Robot_init_def
          FieldManager_init_def INITIAL_NEUTRAL_FUEL_def INITIAL_OUTPOST_FUEL_def TOTAL_FUEL_def
          PUSH_FUEL_PER_TRIP_def PUSH_SCATTER_RATE_def py_round_def TICK_INTERVAL_def Let_def)
qed

text \<open>
  Two more ways in which the code loses fuel.  \<^verbatim>\<open>_distribute_preload\<close> hands each
  robot at most its \<^verbatim>\<open>auto_fuel_target\<close> and drops the rest of the 10 preloaded fuel of
  an alliance: six robots of archetype \<^verbatim>\<open>kitbot_base\<close> start a match with a total of 46,
  six everybots with 60.  A jam in \<^verbatim>\<open>_begin_shooting\<close> sets the sub-phase to
  \<^verbatim>\<open>"shooting"\<close>, so that clearing the jam ends in \<^verbatim>\<open>_finish_shooting\<close>, which sets
  \<^verbatim>\<open>fuel_held\<close> to 0 although the robot, not being in the action \<^verbatim>\<open>SHOOTING\<close>, has
  shot nothing.
\<close>

lemma preload_below_total:
  "total_fuel_check FieldManager_init
     (map state
        (distribute_preload
           [kitbot_base ''red_0'' RED (sconst 0), kitbot_base ''red_1'' RED (sconst 0),
            kitbot_base ''red_2'' RED (sconst 0)] INITIAL_PRELOAD_FUEL
         @ distribute_preload
           [kitbot_base ''blue_0'' BLUE (sconst 0), kitbot_base ''blue_1'' BLUE (sconst 0),
            kitbot_base ''blue_2'' BLUE (sconst 0)] INITIAL_PRELOAD_FUEL))
   = 46"
  by (simp add: total_fuel_check_def distribute_preload_def kitbot_base_def Robot_init_def
        kitbot_base_config_def FieldManager_init_def INITIAL_NEUTRAL_FUEL_def
        INITIAL_OUTPOST_FUEL_def INITIAL_PRELOAD_FUEL_def AUTO_PRELOAD_MAX_def Let_def)

lemma preload_everybots_total:
  "total_fuel_check FieldManager_init
     (map state
        (distribute_preload
           [everybot ''red_0'' RED (sconst 0), everybot ''red_1'' RED (sconst 0),
            everybot ''red_2'' RED (sconst 0)] INITIAL_PRELOAD_FUEL
         @ distribute_preload
           [everybot ''blue_0'' BLUE (sconst 0), everybot ''blue_1'' BLUE (sconst 0),
            everybot ''blue_2'' BLUE (sconst 0)] INITIAL_PRELOAD_FUEL))
   = 60"
  by (simp add: total_fuel_check_def distribute_preload_def everybot_def Robot_init_def
        everybot_config_def FieldManager_init_def INITIAL_NEUTRAL_FUEL_def
        INITIAL_OUTPOST_FUEL_def INITIAL_PRELOAD_FUEL_def AUTO_PRELOAD_MAX_def Let_def)

lemma jam_destroys_held_fuel:
  "current_action (state (begin_shooting shooting_everybot)) = CLEARING_JAM
   \<and> cycle_phase (begin_shooting shooting_everybot) = ''shooting''
   \<and> fuel_held (state (begin_shooting shooting_everybot)) = 4
   \<and> resolve_shooting_robot 15 (begin_shooting shooting_everybot) example_engine
       = (begin_shooting shooting_everybot, example_engine)
   \<and> on_scoring_action_complete FieldManager_init (begin_shooting shooting_everybot)
       = Inr (FieldManager_init, finish_shooting (begin_shooting shooting_everybot))
   \<and> fuel_held (state (finish_shooting (begin_shooting shooting_everybot))) = 0"
  by (simp add: begin_shooting_def shooting_everybot_def everybot_def Robot_init_def
        everybot_config_def INDEXER_JAM_RATES_def rng_random_def Let_def
        on_scoring_action_complete_def finish_shooting_def resolve_shooting_robot_def)

end
